theory Spec2Isabelle
  imports Complex_Main "HOL-Library.Sublist"
begin

section \<open>Symbol dialects (services/asxApi.ts, components/Dashboard.tsx, components/TradingViewChart.tsx)\<close>

text \<open>
  JavaScript's \<^verbatim>\<open>s.replace(pat, rep)\<close> with a string pattern replaces the first
  occurrence of \<^verbatim>\<open>pat\<close> in \<^verbatim>\<open>s\<close>, scanning from the left, and leaves \<^verbatim>\<open>s\<close> unchanged when
  there is none; the replacement is the empty string wherever the code calls it.
  \<^verbatim>\<open>s.endsWith(suf)\<close> is the suffix test. Strings are sequences of code units,
  modelled as \<^typ>\<open>string\<close>.
\<close>

fun replace_first :: "string \<Rightarrow> string \<Rightarrow> string \<Rightarrow> string" where
  "replace_first pat rep [] = (if pat = [] then rep else [])"
| "replace_first pat rep (c # cs) =
     (if prefix pat (c # cs) then rep @ drop (length pat) (c # cs)
      else c # replace_first pat rep cs)"

definition endsWith :: "string \<Rightarrow> string \<Rightarrow> bool" where
  "endsWith s suf = suffix suf s"

text \<open>\<^verbatim>\<open>ASXApiService.convertToYahooSymbol\<close> (asxApi.ts, lines 29-36).\<close>

definition convertToYahooSymbol :: "string \<Rightarrow> string" where
  "convertToYahooSymbol symbol =
     (let cleanSymbol = replace_first ''ASX:'' [] symbol
      in if endsWith cleanSymbol ''.AX'' then cleanSymbol else cleanSymbol @ ''.AX'')"

text \<open>
  The conversion at the head of \<^verbatim>\<open>selectStockForChart\<close> (Dashboard.tsx, lines 130-132);
  \<^verbatim>\<open>handleStockSelect\<close> of TradingViewChart.tsx (lines 121-123) computes the same value.
\<close>

definition tradingViewSymbol :: "string \<Rightarrow> string" where
  "tradingViewSymbol symbol =
     (if endsWith symbol ''.AX'' then ''ASX:'' @ replace_first ''.AX'' [] symbol else symbol)"

text \<open>
  The symbol \<^verbatim>\<open>fetchStockMetrics\<close> puts into its request (TradingViewChart.tsx, lines
  69-70): the prefix is removed and the suffix appended without looking at the end.
\<close>

definition metricsSymbol :: "string \<Rightarrow> string" where
  "metricsSymbol symbol = (let cleanSymbol = replace_first ''ASX:'' [] symbol in cleanSymbol @ ''.AX'')"

section \<open>The quote backend and \<^verbatim>\<open>getStockData\<close> (services/asxApi.ts)\<close>

text \<open>
  A numeric member of the JSON response is absent (reads as \<^verbatim>\<open>undefined\<close>), \<^verbatim>\<open>null\<close> or
  a number. Numbers are modelled as reals (no rounding, no overflow). \<^verbatim>\<open>truthy\<close> is
  JavaScript's truthiness on such a value: \<^verbatim>\<open>undefined\<close>, \<^verbatim>\<open>null\<close> and \<^verbatim>\<open>0\<close> are falsy.
\<close>

datatype json_num = Absent | JNull | JNum real

fun truthy :: "json_num \<Rightarrow> bool" where
  "truthy (JNum r) = (r \<noteq> 0)"
| "truthy _ = False"

text \<open>\<^verbatim>\<open>a || b\<close> on two values, and with a right operand whose evaluation may throw.\<close>

datatype js_error = TypeError | RangeError | SyntaxError | FetchFailed | Error string

definition js_or :: "json_num \<Rightarrow> json_num \<Rightarrow> json_num" where
  "js_or a b = (if truthy a then a else b)"

definition js_or_lazy :: "json_num \<Rightarrow> js_error + json_num \<Rightarrow> js_error + json_num" where
  "js_or_lazy a b = (if truthy a then Inr a else b)"

definition bind_exn :: "js_error + 'a \<Rightarrow> ('a \<Rightarrow> js_error + 'b) \<Rightarrow> js_error + 'b" where
  "bind_exn m f = (case m of Inl e \<Rightarrow> Inl e | Inr x \<Rightarrow> f x)"

text \<open>
  \<^verbatim>\<open>ToNumber\<close> on a value that is used in arithmetic. In \<^verbatim>\<open>getStockData\<close> it is applied
  only behind the truthiness test of \<^verbatim>\<open>currentPrice\<close>, where every operand is a number
  (lemmas \<open>fallback_one\<close> and \<open>fallback_two\<close> below); \<^verbatim>\<open>null\<close> converts to \<^verbatim>\<open>0\<close>.
\<close>

fun to_number :: "json_num \<Rightarrow> real" where
  "to_number (JNum r) = r"
| "to_number _ = 0"

record yahoo_meta =
  regularMarketPrice :: json_num
  meta_previousClose :: json_num
  chartPreviousClose :: json_num
  regularMarketDayHigh :: json_num
  regularMarketDayLow :: json_num
  regularMarketOpen :: json_num
  meta_marketCap :: json_num
  meta_symbol :: "string option"

record yahoo_quote =
  q_close :: "json_num list option"
  q_volume :: "json_num list option"
  q_high :: "json_num list option"
  q_low :: "json_num list option"
  q_open :: "json_num list option"

record yahoo_indicators =
  quote :: "yahoo_quote list option"

record yahoo_result =
  meta :: "yahoo_meta option"
  indicators :: "yahoo_indicators option"
  timestamp :: "json_num list option"

record yahoo_chart =
  result :: "yahoo_result list option"

record yahoo_data =
  chart :: "yahoo_chart option"

text \<open>
  What \<^verbatim>\<open>fetch\<close> gives for one request: the promise rejects (network error), or a
  response arrives with its \<^verbatim>\<open>ok\<close> flag and a body; the body is \<open>None\<close> when
  \<^verbatim>\<open>response.json()\<close> rejects. The backend is a function of the requested symbol, the only
  varying part of the URL.
\<close>

datatype fetch_result = Rejected | Response bool "yahoo_data option"

type_synonym backend = "string \<Rightarrow> fetch_result"

record ASXStockData =
  symbol :: string
  name :: string
  currentPrice :: real
  changePercent :: real
  changeAmount :: real
  volume :: real
  marketCap :: real
  high :: real
  low :: real
  open_price :: real
  previousClose :: real
  lastUpdated :: int

text \<open>Reading a member of an object that may be \<^verbatim>\<open>undefined\<close> throws a TypeError.\<close>

definition deref :: "'a option \<Rightarrow> js_error + 'a" where
  "deref x = (case x of None \<Rightarrow> Inl TypeError | Some v \<Rightarrow> Inr v)"

text \<open>\<^verbatim>\<open>arr[0]\<close> on an array: \<^verbatim>\<open>undefined\<close> when the array is empty.\<close>

fun at0 :: "json_num list \<Rightarrow> json_num" where
  "at0 [] = Absent"
| "at0 (x # _) = x"

text \<open>\<^verbatim>\<open>quote.field[0]\<close>, where \<^verbatim>\<open>quote\<close> and the array may each be \<^verbatim>\<open>undefined\<close>.\<close>

definition first_of :: "yahoo_quote option \<Rightarrow> (yahoo_quote \<Rightarrow> json_num list option) \<Rightarrow> js_error + json_num" where
  "first_of q field = bind_exn (deref q) (\<lambda>qv. bind_exn (deref (field qv)) (\<lambda>arr. Inr (at0 arr)))"

text \<open>
  \<^verbatim>\<open>new Date(timestamp * 1000).toISOString()\<close>: a RangeError when the time value is not a
  number within \<open>\<plusminus>8.64e15\<close> milliseconds; otherwise the instant, kept here as its whole
  number of milliseconds (the time value is truncated towards zero). \<^verbatim>\<open>null * 1000\<close> is 0.
\<close>

definition toISOString :: "json_num \<Rightarrow> js_error + int" where
  "toISOString ts =
     (case ts of
        Absent \<Rightarrow> Inl RangeError
      | JNull \<Rightarrow> Inr 0
      | JNum t \<Rightarrow>
          (if \<bar>t * 1000\<bar> > 8640000000000000 then Inl RangeError
           else Inr (if 0 \<le> t then \<lfloor>t * 1000\<rfloor> else \<lceil>t * 1000\<rceil>)))"

text \<open>
  Lines 58-81 of \<^verbatim>\<open>getStockData\<close>, statement by statement: from \<^verbatim>\<open>meta\<close>, \<^verbatim>\<open>quote\<close> and
  \<^verbatim>\<open>timestamp\<close> to the returned value; \<^verbatim>\<open>meta\<close> and \<^verbatim>\<open>quote\<close> may be \<^verbatim>\<open>undefined\<close>.
\<close>

definition snapshot ::
  "string \<Rightarrow> yahoo_meta option \<Rightarrow> yahoo_quote option \<Rightarrow> json_num \<Rightarrow> js_error + ASXStockData option" where
  "snapshot sy meta_opt q ts =
     bind_exn (deref meta_opt) (\<lambda>m.
     let price = regularMarketPrice m in
     bind_exn (js_or_lazy (meta_previousClose m)
                (js_or_lazy (chartPreviousClose m)
                  (bind_exn (first_of q q_close) (\<lambda>c. Inr (js_or c price))))) (\<lambda>prev.
     if \<not> truthy price then Inr None
     else
       let cp = to_number price;
           pc = to_number prev;
           amount = cp - pc;
           percent = (if truthy prev then (amount / pc) * 100 else 0)
       in
       bind_exn (deref (meta_symbol m)) (\<lambda>msym.
       bind_exn (first_of q q_volume) (\<lambda>vol.
       bind_exn (js_or_lazy (regularMarketDayHigh m)
                  (bind_exn (first_of q q_high) (\<lambda>c. Inr (js_or c price)))) (\<lambda>hi.
       bind_exn (js_or_lazy (regularMarketDayLow m)
                  (bind_exn (first_of q q_low) (\<lambda>c. Inr (js_or c price)))) (\<lambda>lo.
       bind_exn (js_or_lazy (regularMarketOpen m)
                  (bind_exn (first_of q q_open) (\<lambda>c. Inr (js_or c price)))) (\<lambda>op.
       bind_exn (toISOString ts) (\<lambda>iso.
       Inr (Some \<lparr>symbol = sy,
                  name = replace_first ''.AX'' [] msym,
                  currentPrice = cp,
                  changePercent = percent,
                  changeAmount = amount,
                  volume = to_number (js_or vol (JNum 0)),
                  marketCap = to_number (js_or (meta_marketCap m) (JNum 0)),
                  high = to_number hi,
                  low = to_number lo,
                  open_price = to_number op,
                  previousClose = pc,
                  lastUpdated = iso\<rparr>)))))))))"

text \<open>
  The \<^verbatim>\<open>try\<close> block of \<^verbatim>\<open>getStockData\<close> (lines 41-81): the request, the checks of the
  response (lines 44-51), the reads of lines 53-56, then the rest.
\<close>

definition getStockData_try :: "string \<Rightarrow> backend \<Rightarrow> js_error + ASXStockData option" where
  "getStockData_try sy fetch =
     (let yahooSymbol = convertToYahooSymbol sy in
      case fetch yahooSymbol of
        Rejected \<Rightarrow> Inl FetchFailed
      | Response ok body \<Rightarrow>
          if \<not> ok then Inl (Error ''HTTP error'')
          else bind_exn (case body of None \<Rightarrow> Inl SyntaxError | Some d \<Rightarrow> Inr d) (\<lambda>data.
            case chart data of
              None \<Rightarrow> Inl (Error ''No data available'')
            | Some ch \<Rightarrow>
               (case result ch of
                  None \<Rightarrow> Inl (Error ''No data available'')
                | Some [] \<Rightarrow> Inl (Error ''No data available'')
                | Some (res # _) \<Rightarrow>
                    bind_exn (deref (indicators res)) (\<lambda>ind.
                    bind_exn (deref (quote ind)) (\<lambda>quotes.
                    let q = (case quotes of [] \<Rightarrow> None | q0 # _ \<Rightarrow> Some q0) in
                    bind_exn (deref (timestamp res)) (\<lambda>stamps.
                    let ts = at0 stamps in
                    snapshot sy (meta res) q ts))))))"

text \<open>\<^verbatim>\<open>getStockData\<close>: the \<^verbatim>\<open>catch\<close> clause turns every exception into \<^verbatim>\<open>null\<close>.\<close>

definition getStockData :: "string \<Rightarrow> backend \<Rightarrow> ASXStockData option" where
  "getStockData sy fetch = (case getStockData_try sy fetch of Inl e \<Rightarrow> None | Inr r \<Rightarrow> r)"

text \<open>
  \<^verbatim>\<open>getMultipleStocksData\<close> (lines 89-97): the settled results that are fulfilled with a
  non-null value, in the order of the symbols.
\<close>

definition getMultipleStocksData :: "string list \<Rightarrow> backend \<Rightarrow> ASXStockData list" where
  "getMultipleStocksData symbols fetch =
     map the (filter (\<lambda>r. r \<noteq> None) (map (\<lambda>s. getStockData s fetch) symbols))"

text \<open>
  For stating what \<^verbatim>\<open>getStockData\<close> returns: the condition of line 49, the first
  \<^verbatim>\<open>result\<close> and its first \<^verbatim>\<open>quote\<close> when they exist, the first element of an array
  that may be missing, and the first truthy value of a list of candidates with a default.
\<close>

definition no_chart_data :: "yahoo_data \<Rightarrow> bool" where
  "no_chart_data data =
     (case chart data of None \<Rightarrow> True
      | Some ch \<Rightarrow> (case result ch of None \<Rightarrow> True | Some rs \<Rightarrow> rs = []))"

definition first_result :: "yahoo_data \<Rightarrow> yahoo_result option" where
  "first_result data =
     (case chart data of None \<Rightarrow> None
      | Some ch \<Rightarrow> (case result ch of None \<Rightarrow> None | Some [] \<Rightarrow> None | Some (r # _) \<Rightarrow> Some r))"

definition first_quote :: "yahoo_result \<Rightarrow> yahoo_quote option" where
  "first_quote res =
     (case indicators res of None \<Rightarrow> None
      | Some ind \<Rightarrow> (case quote ind of None \<Rightarrow> None | Some [] \<Rightarrow> None | Some (q # _) \<Rightarrow> Some q))"

definition head_of :: "json_num list option \<Rightarrow> json_num" where
  "head_of arr = (case arr of None \<Rightarrow> Absent | Some a \<Rightarrow> at0 a)"

fun first_truthy :: "json_num list \<Rightarrow> real \<Rightarrow> real" where
  "first_truthy [] d = d"
| "first_truthy (x # xs) d = (if truthy x then to_number x else first_truthy xs d)"

text \<open>A response as the backend gives it for a listed stock, used in the examples below.\<close>

definition sample_meta :: yahoo_meta where
  "sample_meta =
     \<lparr>regularMarketPrice = JNum 45, meta_previousClose = Absent, chartPreviousClose = JNum 44,
      regularMarketDayHigh = JNum 46, regularMarketDayLow = JNull, regularMarketOpen = Absent,
      meta_marketCap = Absent, meta_symbol = Some ''BHP.AX''\<rparr>"

definition sample_quote :: yahoo_quote where
  "sample_quote =
     \<lparr>q_close = Some [JNum 45], q_volume = Some [JNum 1000], q_high = Some [JNum 46],
      q_low = Some [JNum 43], q_open = Some [JNull]\<rparr>"

definition sample_result :: yahoo_result where
  "sample_result =
     \<lparr>meta = Some sample_meta, indicators = Some \<lparr>quote = Some [sample_quote]\<rparr>,
      timestamp = Some [JNum 1700000000]\<rparr>"

definition sample_backend :: backend where
  "sample_backend = (\<lambda>u. Response True (Some \<lparr>chart = Some \<lparr>result = Some [sample_result]\<rparr>\<rparr>))"

text \<open>The same response with a current price of zero.\<close>

definition unpriced_backend :: backend where
  "unpriced_backend =
     (\<lambda>u. Response True (Some \<lparr>chart = Some \<lparr>result =
        Some [sample_result\<lparr>meta := Some (sample_meta\<lparr>regularMarketPrice := JNum 0\<rparr>)\<rparr>]\<rparr>\<rparr>))"

text \<open>The same response without its \<^verbatim>\<open>timestamp\<close> array.\<close>

definition untimed_backend :: backend where
  "untimed_backend =
     (\<lambda>u. Response True (Some \<lparr>chart = Some \<lparr>result = Some [sample_result\<lparr>timestamp := None\<rparr>]\<rparr>\<rparr>))"

section \<open>Watchlist refresh (components/Watchlists.tsx)\<close>

text \<open>
  A watchlist item as declared in watchlistApi.ts; the numeric members are
  \<^verbatim>\<open>number | null\<close>. \<open>item_open\<close> is the member \<^verbatim>\<open>open\<close> that the refresh writes next to the
  declared \<^verbatim>\<open>openPrice\<close>; it is absent until then. Instants are whole milliseconds.
\<close>

record WatchlistItem =
  item_id :: int
  item_symbol :: string
  item_name :: string
  item_currentPrice :: "real option"
  item_changePercent :: "real option"
  item_changeAmount :: "real option"
  item_volume :: "real option"
  item_marketCap :: "real option"
  item_high :: "real option"
  item_low :: "real option"
  item_openPrice :: "real option"
  item_open :: "real option"
  item_previousClose :: "real option"
  item_lastUpdated :: int

record Watchlist =
  wl_id :: int
  wl_name :: string
  itemsCount :: int
  items :: "WatchlistItem list option"

text \<open>
  The callback of the inner \<^verbatim>\<open>map\<close> (lines 58-80) once \<^verbatim>\<open>getStockData\<close> has settled with
  \<open>stockData\<close>: the spread copy with the quote members overwritten, or the item itself.
\<close>

definition refreshItem :: "ASXStockData option \<Rightarrow> WatchlistItem \<Rightarrow> WatchlistItem" where
  "refreshItem stockData item =
     (case stockData of
        Some d \<Rightarrow>
          item\<lparr>item_currentPrice := Some (currentPrice d),
               item_changePercent := Some (changePercent d),
               item_changeAmount := Some (changeAmount d),
               item_volume := Some (volume d),
               item_marketCap := Some (marketCap d),
               item_high := Some (high d),
               item_low := Some (low d),
               item_open := Some (open_price d),
               item_previousClose := Some (previousClose d),
               item_lastUpdated := lastUpdated d\<rparr>
      | None \<Rightarrow> item)"

text \<open>
  \<^verbatim>\<open>fetchRealTimeData\<close> (lines 50-91): the value handed to \<^verbatim>\<open>setWatchlists\<close>. Every item
  issues its own request; \<open>net i j\<close> is what the network answers to the request of item
  \<open>j\<close> of watchlist \<open>i\<close>. No callback can reject, so \<^verbatim>\<open>Promise.all\<close> always fulfils.
\<close>

definition fetchRealTimeData :: "(nat \<Rightarrow> nat \<Rightarrow> backend) \<Rightarrow> Watchlist list \<Rightarrow> Watchlist list" where
  "fetchRealTimeData net watchlists =
     map (\<lambda>(i, watchlist).
            case items watchlist of
              None \<Rightarrow> watchlist
            | Some its \<Rightarrow>
                watchlist\<lparr>items :=
                  Some (map (\<lambda>(j, item). refreshItem (getStockData (item_symbol item) (net i j)) item)
                            (enumerate 0 its))\<rparr>)
         (enumerate 0 watchlists)"

text \<open>
  The polling effect (lines 49-95). \<^verbatim>\<open>setInterval\<close> calls \<^verbatim>\<open>fetchRealTimeData\<close> on every
  tick; the call captures the \<^verbatim>\<open>watchlists\<close> of the render that installed the timer, which
  is the current one, since the effect is re-run whenever \<^verbatim>\<open>watchlists\<close> changes. A cycle
  that was started stays in flight until its requests settle, then calls \<^verbatim>\<open>setWatchlists\<close>.
  \<open>in_flight\<close> holds the captured working set of every cycle that has not settled, oldest
  first. Time is abstracted to the order of ticks and settlements.
\<close>

record poll_state =
  watchlists :: "Watchlist list"
  in_flight :: "Watchlist list list"

datatype poll_event = Tick | Settle nat "nat \<Rightarrow> nat \<Rightarrow> backend"

fun poll_step :: "poll_state \<Rightarrow> poll_event \<Rightarrow> poll_state" where
  "poll_step s Tick = s\<lparr>in_flight := in_flight s @ [watchlists s]\<rparr>"
| "poll_step s (Settle k net) =
     (if k < length (in_flight s)
      then s\<lparr>watchlists := fetchRealTimeData net (in_flight s ! k),
             in_flight := take k (in_flight s) @ drop (Suc k) (in_flight s)\<rparr>
      else s)"

definition poll_run :: "poll_state \<Rightarrow> poll_event list \<Rightarrow> poll_state" where
  "poll_run = foldl poll_step"

text \<open>
  A working set for the examples below: one watchlist of two items, and a network that
  answers the request of the first item and fails the request of the second.
\<close>

definition sample_item :: "int \<Rightarrow> string \<Rightarrow> WatchlistItem" where
  "sample_item n sy =
     \<lparr>item_id = n, item_symbol = sy, item_name = sy, item_currentPrice = Some 40,
      item_changePercent = None, item_changeAmount = None, item_volume = None,
      item_marketCap = None, item_high = None, item_low = None, item_openPrice = None,
      item_open = None, item_previousClose = Some 39, item_lastUpdated = 0\<rparr>"

definition sample_watchlists :: "Watchlist list" where
  "sample_watchlists =
     [\<lparr>wl_id = 1, wl_name = ''Miners'', itemsCount = 2,
       items = Some [sample_item 1 ''BHP.AX'', sample_item 2 ''RIO.AX'']\<rparr>]"

definition second_fails :: "nat \<Rightarrow> nat \<Rightarrow> backend" where
  "second_fails i j = (if j = 1 then (\<lambda>u. Rejected) else sample_backend)"

section \<open>Resizable panes (\<^verbatim>\<open>useResizable\<close>, components/Dashboard.tsx)\<close>

text \<open>
  The result of a division can leave the finite numbers: \<^verbatim>\<open>x / 0\<close> is \<^verbatim>\<open>NaN\<close> for \<^verbatim>\<open>x = 0\<close>
  and an infinity otherwise. Finite numbers are reals. \<^verbatim>\<open>Math.min\<close> and \<^verbatim>\<open>Math.max\<close> return
  \<^verbatim>\<open>NaN\<close> as soon as one argument is \<^verbatim>\<open>NaN\<close>.
\<close>

datatype js_number = Finite real | PosInfinity | NegInfinity | NaN

definition js_divide :: "real \<Rightarrow> real \<Rightarrow> js_number" where
  "js_divide a b =
     (if b \<noteq> 0 then Finite (a / b)
      else if a = 0 then NaN
      else if 0 < a then PosInfinity else NegInfinity)"

fun times100 :: "js_number \<Rightarrow> js_number" where
  "times100 (Finite r) = Finite (r * 100)"
| "times100 x = x"

fun js_le :: "js_number \<Rightarrow> js_number \<Rightarrow> bool" where
  "js_le NaN _ = False"
| "js_le _ NaN = False"
| "js_le NegInfinity _ = True"
| "js_le _ PosInfinity = True"
| "js_le (Finite a) (Finite b) = (a \<le> b)"
| "js_le _ _ = False"

definition Math_min :: "js_number \<Rightarrow> js_number \<Rightarrow> js_number" where
  "Math_min a b = (if a = NaN \<or> b = NaN then NaN else if js_le a b then a else b)"

definition Math_max :: "js_number \<Rightarrow> js_number \<Rightarrow> js_number" where
  "Math_max a b = (if a = NaN \<or> b = NaN then NaN else if js_le a b then b else a)"

record DOMRect =
  rect_left :: real
  rect_top :: real
  rect_width :: real
  rect_height :: real

record MouseEvent =
  clientX :: real
  clientY :: real

record resizable =
  pane_size :: js_number
  isResizing :: bool

definition useResizable :: "real \<Rightarrow> resizable" where
  "useResizable initialSize = \<lparr>pane_size = Finite initialSize, isResizing = False\<rparr>"

definition startResizing :: "resizable \<Rightarrow> resizable" where
  "startResizing s = s\<lparr>isResizing := True\<rparr>"

definition stopResizing :: "resizable \<Rightarrow> resizable" where
  "stopResizing s = s\<lparr>isResizing := False\<rparr>"

text \<open>
  \<^verbatim>\<open>resize\<close> (lines 29-43). \<open>container\<close> is \<^verbatim>\<open>containerRef.current\<close> with its bounding
  rectangle, \<open>None\<close> when the reference is empty.
\<close>

definition resize :: "real \<Rightarrow> real \<Rightarrow> bool \<Rightarrow> DOMRect option \<Rightarrow> MouseEvent \<Rightarrow> resizable \<Rightarrow> resizable" where
  "resize minSize maxSize isVertical container e s =
     (if isResizing s then
        (case container of
           None \<Rightarrow> s
         | Some containerRect \<Rightarrow>
             let newSize =
                   (if isVertical
                    then times100 (js_divide (clientY e - rect_top containerRect) (rect_height containerRect))
                    else times100 (js_divide (clientX e - rect_left containerRect) (rect_width containerRect)));
                 clampedSize = Math_max (Finite minSize) (Math_min (Finite maxSize) newSize)
             in s\<lparr>pane_size := clampedSize\<rparr>)
      else s)"

section \<open>Dashboard: search and selection (components/Dashboard.tsx)\<close>

record StockSearchResult =
  sr_symbol :: string
  sr_name :: string
  sr_exchange :: string
  sr_type :: string

text \<open>
  The state of the dashboard that search and selection touch. \<open>pending\<close> lists the
  queries whose \<^verbatim>\<open>asxApiService.searchStocks\<close> promise has not settled, oldest first.
\<close>

record dashboard =
  selectedStock :: string
  searchQuery :: string
  searchResults :: "StockSearchResult list"
  isSearching :: bool
  pending :: "string list"

text \<open>
  \<open>QueryInput q\<close>: the input's \<^verbatim>\<open>onChange\<close> (lines 201-204), which runs \<^verbatim>\<open>searchStocks(q)\<close>
  up to its \<^verbatim>\<open>await\<close>. \<open>SearchSettled k r\<close>: the promise of the \<open>k\<close>-th pending request
  settles, fulfilled with \<open>Some results\<close> or rejected (\<open>None\<close>), and the rest of \<^verbatim>\<open>searchStocks\<close>
  runs (lines 119-125). \<open>Select sy\<close>: \<^verbatim>\<open>selectStockForChart(sy)\<close> (lines 128-136).
\<close>

datatype dashboard_event =
    QueryInput string
  | SearchSettled nat "StockSearchResult list option"
  | Select string

definition searchStocks :: "string \<Rightarrow> dashboard \<Rightarrow> dashboard" where
  "searchStocks query d =
     (if length query < 2 then d\<lparr>searchResults := []\<rparr>
      else d\<lparr>isSearching := True, pending := pending d @ [query]\<rparr>)"

definition searchStocks_settled :: "nat \<Rightarrow> StockSearchResult list option \<Rightarrow> dashboard \<Rightarrow> dashboard" where
  "searchStocks_settled k r d =
     (if k < length (pending d)
      then d\<lparr>searchResults := (case r of Some results \<Rightarrow> results | None \<Rightarrow> []),
             isSearching := False,
             pending := take k (pending d) @ drop (Suc k) (pending d)\<rparr>
      else d)"

definition selectStockForChart :: "string \<Rightarrow> dashboard \<Rightarrow> dashboard" where
  "selectStockForChart sy d =
     d\<lparr>selectedStock := tradingViewSymbol sy, searchQuery := [], searchResults := []\<rparr>"

fun dashboard_step :: "dashboard \<Rightarrow> dashboard_event \<Rightarrow> dashboard" where
  "dashboard_step d (QueryInput q) = searchStocks q (d\<lparr>searchQuery := q\<rparr>)"
| "dashboard_step d (SearchSettled k r) = searchStocks_settled k r d"
| "dashboard_step d (Select sy) = selectStockForChart sy d"

definition dashboard_run :: "dashboard \<Rightarrow> dashboard_event list \<Rightarrow> dashboard" where
  "dashboard_run = foldl dashboard_step"

text \<open>The dashboard as first rendered (lines 70-78).\<close>

definition dashboard_init :: dashboard where
  "dashboard_init =
     \<lparr>selectedStock = ''ASX:BHP'', searchQuery = [], searchResults = [],
      isSearching = False, pending = []\<rparr>"

text \<open>
  An example: two queries typed one after the other, answered in the opposite order.
\<close>

definition bhp_hit :: StockSearchResult where
  "bhp_hit = \<lparr>sr_symbol = ''BHP.AX'', sr_name = ''BHP Group Limited'', sr_exchange = ''ASX'', sr_type = ''EQUITY''\<rparr>"

definition bhg_hit :: StockSearchResult where
  "bhg_hit = \<lparr>sr_symbol = ''BHG.AX'', sr_name = ''BHG'', sr_exchange = ''ASX'', sr_type = ''EQUITY''\<rparr>"

definition raced_search :: "dashboard_event list" where
  "raced_search =
     [QueryInput ''BH'', QueryInput ''BHP'',
      SearchSettled 1 (Some [bhp_hit]), SearchSettled 0 (Some [bhp_hit, bhg_hit])]"

section \<open>The chart widget (components/TradingViewChart.tsx)\<close>

text \<open>
  The calls the component makes on its collaborators, in order. A widget handle is
  named by a number. \<open>Construct sy (Some h)\<close>: the constructor was called with symbol
  \<open>sy\<close> and returned handle \<open>h\<close>; \<open>Construct sy None\<close>: it threw. \<open>Teardown h out\<close>:
  \<^verbatim>\<open>removeWidget\<close> ran on handle \<open>h\<close>, and \<open>out\<close> tells what happened inside its
  \<^verbatim>\<open>try\<close>. \<open>MetricsRequest sy\<close>: \<^verbatim>\<open>fetchStockMetrics\<close> requested the chart data of \<open>sy\<close>.
\<close>

datatype teardown_outcome = Removed | RemoveThrew | NoRemoveFunction

datatype chart_call =
    Construct string "nat option"
  | Teardown nat teardown_outcome
  | MetricsRequest string

text \<open>
  What the surroundings answer while one event is handled: whether
  \<^verbatim>\<open>window.TradingView\<close> is set, whether the constructor throws, whether the handle has a
  function \<^verbatim>\<open>remove\<close> and whether that throws.
\<close>

record chart_env =
  library_ready :: bool
  constructor_throws :: bool
  remove_is_function :: bool
  remove_throws :: bool

record chart_state =
  chart_selectedStock :: string
  initialStock :: string
  widgetRef :: "nat option"
  isLoading :: bool
  chartError :: "string option"
  refreshKey :: nat
  mounted :: bool
  calls :: "chart_call list"

text \<open>
  \<^verbatim>\<open>chartContainerRef.current\<close>: the component renders the container element only when
  it is neither loading nor showing an error (lines 446-472), and the reference is
  empty once the component is unmounted.
\<close>

definition container_rendered :: "chart_state \<Rightarrow> bool" where
  "container_rendered s = (mounted s \<and> \<not> isLoading s \<and> chartError s = None)"

text \<open>\<^verbatim>\<open>removeWidget\<close> (lines 142-156): the \<^verbatim>\<open>finally\<close> clause clears the reference.\<close>

definition removeWidget :: "chart_env \<Rightarrow> chart_state \<Rightarrow> chart_state" where
  "removeWidget env s =
     (case widgetRef s of
        None \<Rightarrow> s
      | Some h \<Rightarrow>
          s\<lparr>widgetRef := None,
            calls := calls s @
              [Teardown h (if remove_is_function env
                           then (if remove_throws env then RemoveThrew else Removed)
                           else NoRemoveFunction)]\<rparr>)"

text \<open>
  \<^verbatim>\<open>createWidget\<close> (lines 216-263), for the \<^verbatim>\<open>selectedStock\<close> of the render it was defined
  in (\<^verbatim>\<open>getTradingViewSymbol\<close> returns its argument). A new handle is numbered by the
  count of calls made before it, which no earlier handle has.
\<close>

definition createWidget :: "chart_env \<Rightarrow> string \<Rightarrow> chart_state \<Rightarrow> chart_state" where
  "createWidget env stock s =
     (if \<not> container_rendered s \<or> \<not> library_ready env then s
      else
        let s1 = removeWidget env s;
            s2 = s1\<lparr>chartError := None\<rparr>
        in if constructor_throws env
           then s2\<lparr>calls := calls s2 @ [Construct stock None],
                   chartError := Some ''Failed to create chart widget''\<rparr>
           else s2\<lparr>widgetRef := Some (length (calls s2)),
                   calls := calls s2 @ [Construct stock (Some (length (calls s2)))]\<rparr>)"

text \<open>
  The effect on \<^verbatim>\<open>[selectedStock, isLoading, refreshKey]\<close> (lines 187-192), run after the
  render of state \<open>s\<close>.
\<close>

definition widget_effect :: "chart_env \<Rightarrow> chart_state \<Rightarrow> chart_state" where
  "widget_effect env s =
     (if container_rendered s \<and> library_ready env \<and> \<not> isLoading s
      then createWidget env (chart_selectedStock s) s
      else s)"

text \<open>The effect on \<^verbatim>\<open>[selectedStock]\<close> (lines 195-199), up to the request it sends.\<close>

definition metrics_effect :: "chart_state \<Rightarrow> chart_state" where
  "metrics_effect s =
     (if chart_selectedStock s \<noteq> []
      then s\<lparr>calls := calls s @ [MetricsRequest (metricsSymbol (chart_selectedStock s))]\<rparr>
      else s)"

text \<open>
  \<^verbatim>\<open>setSelectedStock(stock)\<close> and the effects of the render it causes, in the order the
  component declares them. Setting the value the state already has causes no render.
\<close>

definition setSelectedStock :: "chart_env \<Rightarrow> string \<Rightarrow> chart_state \<Rightarrow> chart_state" where
  "setSelectedStock env stock s =
     (if stock = chart_selectedStock s then s
      else metrics_effect (widget_effect env (s\<lparr>chart_selectedStock := stock\<rparr>)))"

text \<open>\<^verbatim>\<open>setIsLoading(false)\<close> and the effects of the render it causes.\<close>

definition setIsLoading_false :: "chart_env \<Rightarrow> chart_state \<Rightarrow> chart_state" where
  "setIsLoading_false env s =
     (if isLoading s then widget_effect env (s\<lparr>isLoading := False\<rparr>) else s)"

text \<open>
  \<open>ScriptLoaded\<close> and \<open>ScriptError\<close>: the handlers of the script element (lines 163-172);
  \<^verbatim>\<open>onload\<close> queues \<^verbatim>\<open>setIsLoading(false)\<close> and calls the \<^verbatim>\<open>createWidget\<close> of the first
  render while the loading panel is still what is rendered, so that call finds no
  container; the render without the panel then runs the effect. \<open>PropChanged p\<close>:
  the parent passes a new \<^verbatim>\<open>selectedStock\<close> (lines 181-185). \<open>StockSelected sy\<close>:
  \<^verbatim>\<open>handleStockSelect(sy)\<close> (lines 120-134), without the call to the parent.
  \<open>RefreshRequested\<close>: the refresh button (line 314). \<open>RetryClicked\<close>: the button of the
  error panel (line 459). \<open>Unmount\<close>: the cleanup (lines 175-178). An unmounted component
  handles no event: its state updates are dropped and its \<^verbatim>\<open>createWidget\<close> finds no
  container.
\<close>

datatype chart_event =
    ScriptLoaded
  | ScriptError
  | PropChanged string
  | StockSelected string
  | RefreshRequested
  | RetryClicked
  | Unmount

fun handle_event :: "chart_env \<Rightarrow> chart_state \<Rightarrow> chart_event \<Rightarrow> chart_state" where
  "handle_event env s ScriptLoaded = setIsLoading_false env (createWidget env (initialStock s) s)"
| "handle_event env s ScriptError =
     setIsLoading_false env (s\<lparr>chartError := Some ''Failed to load TradingView chart library''\<rparr>)"
| "handle_event env s (PropChanged p) = (if p \<noteq> [] then setSelectedStock env p s else s)"
| "handle_event env s (StockSelected sy) = setSelectedStock env (tradingViewSymbol sy) s"
| "handle_event env s RefreshRequested = widget_effect env (s\<lparr>refreshKey := refreshKey s + 1\<rparr>)"
| "handle_event env s RetryClicked = createWidget env (chart_selectedStock s) s"
| "handle_event env s Unmount = (removeWidget env s)\<lparr>mounted := False\<rparr>"

definition chart_step :: "chart_env \<Rightarrow> chart_state \<Rightarrow> chart_event \<Rightarrow> chart_state" where
  "chart_step env s e = (if mounted s then handle_event env s e else s)"

text \<open>A run: every event comes with the answers of the surroundings at that moment.\<close>

fun chart_run :: "chart_state \<Rightarrow> (chart_env \<times> chart_event) list \<Rightarrow> chart_state" where
  "chart_run s [] = s"
| "chart_run s ((env, e) # es) = chart_run (chart_step env s e) es"

text \<open>
  The first render (lines 25-41 and the effects): no widget yet, the script still
  loading, and one metrics request for the initial stock.
\<close>

definition chart_mount :: "string \<Rightarrow> chart_state" where
  "chart_mount propSelectedStock =
     (let stock = (if propSelectedStock \<noteq> [] then propSelectedStock else ''ASX:BHP'')
      in metrics_effect
           \<lparr>chart_selectedStock = stock, initialStock = stock, widgetRef = None,
            isLoading = True, chartError = None, refreshKey = 0, mounted = True, calls = []\<rparr>)"

text \<open>
  The dashboard with its chart: \<^verbatim>\<open>selectStockForChart\<close> sets the dashboard's
  \<^verbatim>\<open>selectedStock\<close>, which is the chart's \<^verbatim>\<open>selectedStock\<close> property (Dashboard.tsx, lines
  334-337); the chart sees a change of the property only when the value differs.
\<close>

definition select_instrument ::
  "chart_env \<Rightarrow> string \<Rightarrow> dashboard \<times> chart_state \<Rightarrow> dashboard \<times> chart_state" where
  "select_instrument env sy app =
     (let d = selectStockForChart sy (fst app)
      in (d, if selectedStock d \<noteq> selectedStock (fst app)
             then chart_step env (snd app) (PropChanged (selectedStock d))
             else snd app))"

text \<open>
  Reading a log of calls. The widget is in one of three phases: none was created or the
  last one was torn down; one is live; the last constructor call threw. \<open>replay\<close> gives
  the phase after the log, provided constructor calls and teardowns alternate strictly:
  the constructor is called only when no widget is live and the last call did not
  throw, and a teardown is of the live handle. It gives \<open>None\<close> if the log breaks that.
\<close>

datatype widget_phase = NoWidget | LiveWidget nat | Broken

fun replay :: "widget_phase \<Rightarrow> chart_call list \<Rightarrow> widget_phase option" where
  "replay ph [] = Some ph"
| "replay ph (Construct sy r # cs) =
     (if ph = NoWidget
      then replay (case r of Some h \<Rightarrow> LiveWidget h | None \<Rightarrow> Broken) cs
      else None)"
| "replay ph (Teardown h out # cs) = (if ph = LiveWidget h then replay NoWidget cs else None)"
| "replay ph (MetricsRequest sy # cs) = replay ph cs"

text \<open>
  A state is tracked when its log obeys that discipline and the phase after the log
  agrees with the component: the live handle is the one in \<^verbatim>\<open>widgetRef\<close>, and after a
  constructor call that threw the component holds no handle and shows the error.
\<close>

definition tracked :: "chart_state \<Rightarrow> bool" where
  "tracked s =
     (case replay NoWidget (calls s) of
        None \<Rightarrow> False
      | Some NoWidget \<Rightarrow> widgetRef s = None
      | Some (LiveWidget h) \<Rightarrow> widgetRef s = Some h
      | Some Broken \<Rightarrow> widgetRef s = None \<and> chartError s \<noteq> None)"

definition is_construct :: "chart_call \<Rightarrow> bool" where
  "is_construct c = (case c of Construct sy r \<Rightarrow> True | _ \<Rightarrow> False)"

definition is_teardown :: "chart_call \<Rightarrow> bool" where
  "is_teardown c = (case c of Teardown h out \<Rightarrow> True | _ \<Rightarrow> False)"

text \<open>The instrument changes and refresh requests among the events.\<close>

definition is_change :: "chart_event \<Rightarrow> bool" where
  "is_change e = (case e of PropChanged p \<Rightarrow> True | StockSelected sy \<Rightarrow> True
                  | RefreshRequested \<Rightarrow> True | RetryClicked \<Rightarrow> True | _ \<Rightarrow> False)"

text \<open>
  Surroundings for the examples below: everything in place, and the same with a
  constructor that throws. \<open>csl_app\<close> is the dashboard with its chart after the script
  has loaded, showing \<^verbatim>\<open>ASX:CSL\<close>. \<open>busy_session\<close> is a run of changes: two instruments,
  a refresh whose constructor call throws, and what the user tries after that.
\<close>

definition env_ok :: chart_env where
  "env_ok = \<lparr>library_ready = True, constructor_throws = False,
             remove_is_function = True, remove_throws = False\<rparr>"

definition env_throwing :: chart_env where
  "env_throwing = env_ok\<lparr>constructor_throws := True\<rparr>"

definition csl_app :: "dashboard \<times> chart_state" where
  "csl_app =
     (dashboard_init\<lparr>selectedStock := ''ASX:CSL''\<rparr>,
      chart_run (chart_mount ''ASX:CSL'') [(env_ok, ScriptLoaded)])"

definition busy_session :: "(chart_env \<times> chart_event) list" where
  "busy_session =
     [(env_ok, PropChanged ''ASX:RIO''), (env_ok, StockSelected ''BHP.AX''),
      (env_throwing, RefreshRequested), (env_ok, RetryClicked), (env_ok, RefreshRequested),
      (env_ok, PropChanged ''ASX:WES'')]"

section \<open>Chat history (components/Chatbox.tsx)\<close>

datatype sender = User | AI

record Message =
  msg_id :: int
  msg_text :: string
  msg_sender :: sender
  msg_timestamp :: int

definition getHistoryKey :: "string \<Rightarrow> string" where
  "getHistoryKey model = ''chat_history_'' @ model"

definition greeting :: "int \<Rightarrow> Message" where
  "greeting now =
     \<lparr>msg_id = 1,
      msg_text = ''Hello! I'' @ [CHR 39] @ ''m your AI portfolio assistant. I can help you with stock analysis, portfolio insights, and investment strategies. What would you like to know?'',
      msg_sender = AI,
      msg_timestamp = now\<rparr>"

text \<open>
  \<open>localStorage\<close> maps a key to the thread stored under it; \<^verbatim>\<open>JSON.stringify\<close> and
  \<^verbatim>\<open>JSON.parse\<close> are taken to be inverse on threads. \<open>awaiting\<close> is the model named in the
  request that has not been answered yet.
\<close>

record chat_state =
  selectedModel :: string
  messages :: "Message list"
  inputMessage :: string
  chat_isLoading :: bool
  chat_error :: "string option"
  localStorage :: "string \<rightharpoonup> Message list"
  awaiting :: "string option"

text \<open>The effect on \<^verbatim>\<open>[messages, selectedModel]\<close> (lines 53-55).\<close>

definition save_effect :: "chat_state \<Rightarrow> chat_state" where
  "save_effect s =
     s\<lparr>localStorage := (localStorage s)(getHistoryKey (selectedModel s) \<mapsto> messages s)\<rparr>"

text \<open>
  \<^verbatim>\<open>setMessages\<close> with a new array, and the save effect of the render it causes.
\<close>

definition setMessages :: "Message list \<Rightarrow> chat_state \<Rightarrow> chat_state" where
  "setMessages msgs s = save_effect (s\<lparr>messages := msgs\<rparr>)"

text \<open>
  The two effects of a render in which \<^verbatim>\<open>selectedModel\<close> is new (lines 36-55), in the
  order they are declared: the load effect reads the stored thread and queues
  \<^verbatim>\<open>setMessages\<close>; the save effect of the same render writes the messages this render
  still shows; then the queued update renders and saves again.
\<close>

definition model_effects :: "int \<Rightarrow> chat_state \<Rightarrow> chat_state" where
  "model_effects now s =
     (let saved = localStorage s (getHistoryKey (selectedModel s));
          loaded = (case saved of Some thread \<Rightarrow> thread | None \<Rightarrow> [greeting now])
      in setMessages loaded (save_effect s))"

definition is_space :: "char \<Rightarrow> bool" where
  "is_space c = (c \<in> set [CHR 32, CHR 9, CHR 10, CHR 11, CHR 12, CHR 13, CHR 160])"

text \<open>\<^verbatim>\<open>!inputMessage.trim()\<close>: nothing but white space.\<close>

definition blank :: "string \<Rightarrow> bool" where
  "blank s = list_all is_space s"

datatype chat_event =
    SelectModel string int
  | TypeInput string
  | SendMessage int
  | ResponseOk "string option" int
  | ResponseFailed
  | ClearHistory int

text \<open>
  The handlers: the model selector (line 168), the text area, \<^verbatim>\<open>sendMessage\<close> up to its
  \<^verbatim>\<open>await\<close> (lines 73-95), its continuation on an answer (lines 101-108, 112) or on a
  failure (lines 109-113), and \<^verbatim>\<open>clearHistory\<close> (lines 124-134). The integer is the clock
  (\<^verbatim>\<open>Date.now()\<close>) when the handler runs.
\<close>

fun chat_step :: "chat_state \<Rightarrow> chat_event \<Rightarrow> chat_state" where
  "chat_step s (SelectModel m now) =
     (if m = selectedModel s then s else model_effects now (s\<lparr>selectedModel := m\<rparr>))"
| "chat_step s (TypeInput t) = s\<lparr>inputMessage := t\<rparr>"
| "chat_step s (SendMessage now) =
     (if blank (inputMessage s) \<or> chat_isLoading s then s
      else
        let userMessage = \<lparr>msg_id = now, msg_text = inputMessage s,
                            msg_sender = User, msg_timestamp = now\<rparr>
        in (setMessages (messages s @ [userMessage]) s)
             \<lparr>chat_error := None, inputMessage := [], chat_isLoading := True,
              awaiting := Some (selectedModel s)\<rparr>)"
| "chat_step s (ResponseOk response now) =
     (case awaiting s of
        None \<Rightarrow> s
      | Some m \<Rightarrow>
          let aiResponse =
                \<lparr>msg_id = now + 1,
                 msg_text = (case response of
                               Some t \<Rightarrow> if t \<noteq> [] then t else ''Sorry, I could not process your request.''
                             | None \<Rightarrow> ''Sorry, I could not process your request.''),
                 msg_sender = AI, msg_timestamp = now\<rparr>
          in (setMessages (messages s @ [aiResponse]) s)
               \<lparr>chat_isLoading := False, awaiting := None\<rparr>)"
| "chat_step s ResponseFailed =
     (case awaiting s of
        None \<Rightarrow> s
      | Some m \<Rightarrow>
          s\<lparr>chat_error := Some ''Sorry, there was a problem contacting the AI assistant. Please try again.'',
            chat_isLoading := False, awaiting := None\<rparr>)"
| "chat_step s (ClearHistory now) =
     setMessages [greeting now]
       (s\<lparr>localStorage := (localStorage s)(getHistoryKey (selectedModel s) := None)\<rparr>)"

definition chat_run :: "chat_state \<Rightarrow> chat_event list \<Rightarrow> chat_state" where
  "chat_run = foldl chat_step"

text \<open>The first render (lines 27-31) and its effects, over the storage found.\<close>

definition chat_mount :: "(string \<rightharpoonup> Message list) \<Rightarrow> int \<Rightarrow> chat_state" where
  "chat_mount storage now =
     model_effects now
       \<lparr>selectedModel = ''llama3-70b-8192'', messages = [], inputMessage = [],
        chat_isLoading = False, chat_error = None, localStorage = storage, awaiting = None\<rparr>"

definition selects :: "string \<Rightarrow> chat_event \<Rightarrow> bool" where
  "selects m e = (case e of SelectModel m' now \<Rightarrow> m' = m | _ \<Rightarrow> False)"

text \<open>
  For the examples below: a storage that holds a thread for the model \<^verbatim>\<open>qwen-2.5-32b\<close>, and
  a conversation under the model selected first.
\<close>

definition qwen_thread :: "Message list" where
  "qwen_thread =
     [greeting 100,
      \<lparr>msg_id = 200, msg_text = ''Is RIO a buy?'', msg_sender = User, msg_timestamp = 200\<rparr>]"

definition sample_storage :: "string \<rightharpoonup> Message list" where
  "sample_storage = [getHistoryKey ''qwen-2.5-32b'' \<mapsto> qwen_thread]"

definition sample_chat :: "chat_event list" where
  "sample_chat =
     [TypeInput ''How is BHP doing?'', SendMessage 300, ResponseOk (Some ''It is up 2%.'') 301,
      ClearHistory 302, TypeInput ''And CSL?'', SendMessage 303]"

text \<open>
  A message sent under the model selected first, whose answer arrives after the user
  has selected \<^verbatim>\<open>qwen-2.5-32b\<close>: the selector (lines 167-169) is not disabled while the
  request is pending.
\<close>

definition late_answer_run :: "chat_event list" where
  "late_answer_run =
     [TypeInput ''How is BHP doing?'', SendMessage 300, SelectModel ''qwen-2.5-32b'' 301,
      ResponseOk (Some ''It is up 2%.'') 302]"

section \<open>Properties of the symbol conversions\<close>

lemma replace_first_absent: "\<not> sublist pat s \<Longrightarrow> replace_first pat rep s = s"
proof (induction s)
  case Nil
  then show ?case by auto
next
  case (Cons c cs)
  then have "\<not> prefix pat (c # cs)" "\<not> sublist pat cs"
    by (auto simp: sublist_Cons_right)
  with Cons.IH show ?case by simp
qed

lemma replace_first_at_head: "pat \<noteq> [] \<Longrightarrow> replace_first pat [] (pat @ t) = t"
  by (cases pat) auto

lemma no_prefix_in_suffixed:
  "sublist ''ASX:'' (c @ ''.AX'') \<longleftrightarrow> sublist ''ASX:'' c"
proof
  assume "sublist ''ASX:'' (c @ ''.AX'')"
  then consider "sublist ''ASX:'' c" | "sublist ''ASX:'' ''.AX''"
    | xs1 xs2 where "''ASX:'' = xs1 @ xs2" "suffix xs1 c" "prefix xs2 ''.AX''"
    unfolding sublist_append by blast
  then show "sublist ''ASX:'' c"
  proof cases
    case 1 then show ?thesis .
  next
    case 2 then show ?thesis using sublist_length_le by fastforce
  next
    case 3
    from 3(1,3) have "xs2 = []"
      by (auto simp: append_eq_Cons_conv Cons_eq_append_conv prefix_Cons)
    with 3 show ?thesis by auto
  qed
next
  assume "sublist ''ASX:'' c" then show "sublist ''ASX:'' (c @ ''.AX'')"
    by (simp add: sublist_append)
qed

lemma suffix_removed_at_end:
  "\<not> sublist ''.AX'' t \<Longrightarrow> replace_first ''.AX'' [] (t @ ''.AX'') = t"
proof (induction t)
  case Nil
  then show ?case by simp
next
  case (Cons c t)
  from Cons.prems have nt: "\<not> sublist ''.AX'' t" and np: "\<not> prefix ''.AX'' (c # t)"
    by (auto simp: sublist_Cons_right)
  have "\<not> prefix ''.AX'' (c # t @ ''.AX'')"
  proof
    assume p: "prefix ''.AX'' (c # t @ ''.AX'')"
    show False
    proof (cases t)
      case Nil with p show False by simp
    next
      case (Cons a u)
      show False
      proof (cases u)
        case Nil with Cons p show False by simp
      next
        case (Cons b v)
        with \<open>t = a # u\<close> p np show False by simp
      qed
    qed
  qed
  then have "replace_first ''.AX'' [] ((c # t) @ ''.AX'') = c # replace_first ''.AX'' [] (t @ ''.AX'')"
    by (simp only: append_Cons replace_first.simps if_False)
  with Cons.IH[OF nt] show ?case by simp
qed

lemma prefixed_not_suffixed:
  "\<not> sublist ''.AX'' t \<Longrightarrow> \<not> suffix ''.AX'' (''ASX:'' @ t)"
proof
  assume n: "\<not> sublist ''.AX'' t" and s: "suffix ''.AX'' (''ASX:'' @ t)"
  from s have "suffix ''.AX'' t \<or> (\<exists>xs'. suffix xs' ''ASX:'' \<and> ''.AX'' = xs' @ t)"
    unfolding suffix_append by blast
  then show False
  proof
    assume "suffix ''.AX'' t" with n show False by auto
  next
    assume "\<exists>xs'. suffix xs' ''ASX:'' \<and> ''.AX'' = xs' @ t"
    then obtain xs' where x: "suffix xs' ''ASX:''" "''.AX'' = xs' @ t" by blast
    from x(2) n have "xs' \<noteq> []" by auto
    with x show False
      by (auto simp: Cons_eq_append_conv suffix_def append_eq_Cons_conv)
  qed
qed

lemma endsWith_append: "endsWith (c @ suf) suf"
  unfolding endsWith_def suffix_def by blast

lemma convert_suffixed: "endsWith (convertToYahooSymbol s) ''.AX''"
  using endsWith_append[of "replace_first ''ASX:'' [] s" "''.AX''"]
  by (simp add: convertToYahooSymbol_def Let_def)

lemma convert_idem:
  assumes "\<not> sublist ''ASX:'' (replace_first ''ASX:'' [] s)"
  shows "convertToYahooSymbol (convertToYahooSymbol s) = convertToYahooSymbol s"
proof -
  let ?c = "replace_first ''ASX:'' [] s"
  let ?y = "convertToYahooSymbol s"
  have y: "?y = ?c \<or> ?y = ?c @ ''.AX''"
    by (simp add: convertToYahooSymbol_def Let_def)
  with assms have "\<not> sublist ''ASX:'' ?y"
    using no_prefix_in_suffixed[of ?c] by auto
  then have "replace_first ''ASX:'' [] ?y = ?y"
    by (rule replace_first_absent)
  moreover have "endsWith ?y ''.AX''" by (rule convert_suffixed)
  ultimately show ?thesis
    unfolding convertToYahooSymbol_def[of ?y] by (simp add: Let_def)
qed

lemma ticker_not_suffixed: "\<not> sublist ''.AX'' t \<Longrightarrow> \<not> endsWith t ''.AX''"
  by (auto simp: endsWith_def)

lemma forms_roundtrip:
  assumes a: "\<not> sublist ''ASX:'' t" and b: "\<not> sublist ''.AX'' t"
  shows "convertToYahooSymbol t = t @ ''.AX''"
    and "convertToYahooSymbol (''ASX:'' @ t) = t @ ''.AX''"
    and "convertToYahooSymbol (t @ ''.AX'') = t @ ''.AX''"
    and "tradingViewSymbol (t @ ''.AX'') = ''ASX:'' @ t"
    and "tradingViewSymbol (''ASX:'' @ t) = ''ASX:'' @ t"
    and "tradingViewSymbol t = t"
proof -
  have r1: "replace_first ''ASX:'' [] t = t" using a by (rule replace_first_absent)
  have r2: "replace_first ''ASX:'' [] (''ASX:'' @ t) = t"
    by (rule replace_first_at_head) simp
  have r3: "replace_first ''ASX:'' [] (t @ ''.AX'') = t @ ''.AX''"
    using a by (intro replace_first_absent) (simp add: no_prefix_in_suffixed)
  have nb: "\<not> endsWith t ''.AX''" using b by (rule ticker_not_suffixed)
  show "convertToYahooSymbol t = t @ ''.AX''"
    using r1 nb by (simp add: convertToYahooSymbol_def Let_def)
  show "convertToYahooSymbol (''ASX:'' @ t) = t @ ''.AX''"
    using r2 nb unfolding convertToYahooSymbol_def Let_def by (simp only: if_False)
  show "convertToYahooSymbol (t @ ''.AX'') = t @ ''.AX''"
    using r3 endsWith_append[of t "''.AX''"] unfolding convertToYahooSymbol_def Let_def by simp
  show "tradingViewSymbol (t @ ''.AX'') = ''ASX:'' @ t"
    using suffix_removed_at_end[OF b] endsWith_append[of t "''.AX''"] unfolding tradingViewSymbol_def by simp
  show "tradingViewSymbol (''ASX:'' @ t) = ''ASX:'' @ t"
    using prefixed_not_suffixed[OF b] unfolding tradingViewSymbol_def endsWith_def by (simp only: if_False)
  show "tradingViewSymbol t = t"
    using nb by (simp add: tradingViewSymbol_def)
qed

text \<open>
  Claim C1, as amended. Neither conversion is idempotent on every string, because
  \<^verbatim>\<open>replace\<close> removes only the first occurrence. What holds: \<open>convertToYahooSymbol\<close> is
  idempotent on every symbol that holds no further \<^verbatim>\<open>ASX:\<close> once the first one is removed;
  its result always ends with \<^verbatim>\<open>.AX\<close>, and nothing is appended when the symbol without
  its prefix already ends with \<^verbatim>\<open>.AX\<close>; and for a ticker \<open>t\<close> that holds neither \<^verbatim>\<open>ASX:\<close>
  nor \<^verbatim>\<open>.AX\<close>, the bare, the prefixed and the suffixed form all convert to the suffixed
  form, the suffixed and the prefixed form are both selected as the prefixed form, and
  the bare form is selected as it is.
\<close>

theorem symbol_forms_normalize:
  "(\<not> sublist ''ASX:'' (replace_first ''ASX:'' [] s) \<longrightarrow>
      convertToYahooSymbol (convertToYahooSymbol s) = convertToYahooSymbol s)
   \<and> endsWith (convertToYahooSymbol s) ''.AX''
   \<and> (endsWith (replace_first ''ASX:'' [] s) ''.AX'' \<longrightarrow>
        convertToYahooSymbol s = replace_first ''ASX:'' [] s)
   \<and> (\<not> sublist ''ASX:'' t \<and> \<not> sublist ''.AX'' t \<longrightarrow>
        convertToYahooSymbol t = t @ ''.AX''
      \<and> convertToYahooSymbol (''ASX:'' @ t) = t @ ''.AX''
      \<and> convertToYahooSymbol (t @ ''.AX'') = t @ ''.AX''
      \<and> tradingViewSymbol (t @ ''.AX'') = ''ASX:'' @ t
      \<and> tradingViewSymbol (''ASX:'' @ t) = ''ASX:'' @ t
      \<and> tradingViewSymbol t = t)"
proof (intro conjI impI)
  assume "\<not> sublist ''ASX:'' (replace_first ''ASX:'' [] s)"
  then show "convertToYahooSymbol (convertToYahooSymbol s) = convertToYahooSymbol s"
    by (rule convert_idem)
next
  show "endsWith (convertToYahooSymbol s) ''.AX''" by (rule convert_suffixed)
next
  assume "endsWith (replace_first ''ASX:'' [] s) ''.AX''"
  then show "convertToYahooSymbol s = replace_first ''ASX:'' [] s"
    by (simp add: convertToYahooSymbol_def Let_def)
next
  assume h: "\<not> sublist ''ASX:'' t \<and> \<not> sublist ''.AX'' t"
  then have a: "\<not> sublist ''ASX:'' t" and b: "\<not> sublist ''.AX'' t" by simp_all
  show "convertToYahooSymbol t = t @ ''.AX''" by (rule forms_roundtrip(1)[OF a b])
  show "convertToYahooSymbol (''ASX:'' @ t) = t @ ''.AX''" by (rule forms_roundtrip(2)[OF a b])
  show "convertToYahooSymbol (t @ ''.AX'') = t @ ''.AX''" by (rule forms_roundtrip(3)[OF a b])
  show "tradingViewSymbol (t @ ''.AX'') = ''ASX:'' @ t" by (rule forms_roundtrip(4)[OF a b])
  show "tradingViewSymbol (''ASX:'' @ t) = ''ASX:'' @ t" by (rule forms_roundtrip(5)[OF a b])
  show "tradingViewSymbol t = t" by (rule forms_roundtrip(6)[OF a b])
qed

theorem symbol_forms_normalize_witness:
  "\<not> sublist ''ASX:'' (replace_first ''ASX:'' [] ''ASX:BHP'')
   \<and> \<not> sublist ''ASX:'' ''BHP'' \<and> \<not> sublist ''.AX'' ''BHP''
   \<and> endsWith (replace_first ''ASX:'' [] ''BHP.AX'') ''.AX''
   \<and> convertToYahooSymbol (convertToYahooSymbol ''ASX:BHP'') = convertToYahooSymbol ''ASX:BHP''
   \<and> convertToYahooSymbol ''BHP.AX'' = ''BHP.AX''
   \<and> convertToYahooSymbol ''BHP'' = ''BHP.AX''
   \<and> convertToYahooSymbol ''ASX:BHP'' = ''BHP.AX''
   \<and> tradingViewSymbol ''BHP.AX'' = ''ASX:BHP''
   \<and> tradingViewSymbol ''ASX:BHP'' = ''ASX:BHP''"
proof -
  have h1: "\<not> sublist ''ASX:'' (replace_first ''ASX:'' [] ''ASX:BHP'')" by code_simp
  have h2: "\<not> sublist ''ASX:'' ''BHP'' \<and> \<not> sublist ''.AX'' ''BHP''" by code_simp
  have h3: "endsWith (replace_first ''ASX:'' [] ''BHP.AX'') ''.AX''" by code_simp
  have r: "replace_first ''ASX:'' [] ''BHP.AX'' = ''BHP.AX''" by code_simp
  show ?thesis
    using h1 h2 h3 r symbol_forms_normalize[of "''ASX:BHP''" "''BHP''"]
      symbol_forms_normalize[of "''BHP.AX''" "''BHP''"]
    by simp
qed

text \<open>
  The claim as stated fails for a symbol with two prefixes: the first conversion
  removes one, the second removes the other.
\<close>

theorem normalize_idempotent_counterexample:
  "convertToYahooSymbol (convertToYahooSymbol ''ASX:ASX:BHP'') \<noteq> convertToYahooSymbol ''ASX:ASX:BHP''"
  by code_simp

section \<open>Properties of \<^verbatim>\<open>getStockData\<close>\<close>

lemma bind_exn_simps [simp]:
  "bind_exn (Inl e) f = Inl e" "bind_exn (Inr x) f = f x"
  by (simp_all add: bind_exn_def)

lemma bind_exn_Inr: "bind_exn m f = Inr r \<longleftrightarrow> (\<exists>x. m = Inr x \<and> f x = Inr r)"
  by (cases m) auto

lemma map_sum_bind_exn: "map_sum id g (bind_exn m f) = bind_exn m (\<lambda>x. map_sum id g (f x))"
  by (cases m) auto

lemma bind_exn_cong:
  "m = m' \<Longrightarrow> (\<And>x. m' = Inr x \<Longrightarrow> f x = g x) \<Longrightarrow> bind_exn m f = bind_exn m' g"
  by (cases m') auto

lemma map_sum_if: "map_sum id g (if c then a else b) = (if c then map_sum id g a else map_sum id g b)"
  by simp

lemma getStockData_try_symbol_free:
  assumes "fetch (convertToYahooSymbol s) = fetch' (convertToYahooSymbol s')"
  shows "getStockData_try s fetch = map_sum id (map_option (\<lambda>d. d\<lparr>symbol := s\<rparr>)) (getStockData_try s' fetch')"
  using assms
  unfolding getStockData_try_def Let_def
  unfolding snapshot_def Let_def
  by (simp add: map_sum_bind_exn map_sum_if cong: bind_exn_cong if_cong
        split: fetch_result.split option.split list.split)

lemma getStockData_symbol_free:
  assumes "fetch (convertToYahooSymbol s) = fetch' (convertToYahooSymbol s')"
  shows "getStockData s fetch = map_option (\<lambda>d. d\<lparr>symbol := s\<rparr>) (getStockData s' fetch')"
  unfolding getStockData_def getStockData_try_symbol_free[of fetch s fetch' s', OF assms]
  by (cases "getStockData_try s' fetch'") auto

lemma deref_simps [simp]: "deref None = Inl TypeError" "deref (Some v) = Inr v"
  by (simp_all add: deref_def)

lemma deref_Inr [simp]: "deref x = Inr v \<longleftrightarrow> x = Some v"
  by (cases x) (auto simp: deref_def)

lemma js_or_lazy_Inr:
  "js_or_lazy a b = Inr v \<longleftrightarrow> (truthy a \<and> v = a) \<or> (\<not> truthy a \<and> b = Inr v)"
  by (auto simp: js_or_lazy_def)

lemma first_of_Inr:
  "first_of q f = Inr v \<longleftrightarrow> (\<exists>qv arr. q = Some qv \<and> f qv = Some arr \<and> v = at0 arr)"
  by (auto simp: first_of_def bind_exn_Inr)

lemma truthy_to_number: "truthy a \<Longrightarrow> to_number a \<noteq> 0"
  by (cases a) auto

lemma first_truthy_nonzero: "d \<noteq> 0 \<Longrightarrow> first_truthy xs d \<noteq> 0"
  by (induction xs) (auto simp: truthy_to_number)

lemma fallback_one:
  assumes "js_or_lazy a (bind_exn (first_of (Some q) f) (\<lambda>c. Inr (js_or c price))) = Inr v"
  shows "to_number v = first_truthy [a, head_of (f q)] (to_number price)"
    and "truthy price \<Longrightarrow> truthy v"
  using assms
  by (auto simp: js_or_lazy_Inr bind_exn_Inr first_of_Inr js_or_def head_of_def)

lemma fallback_two:
  assumes "js_or_lazy a (js_or_lazy b (bind_exn (first_of (Some q) f) (\<lambda>c. Inr (js_or c price)))) = Inr v"
  shows "to_number v = first_truthy [a, b, head_of (f q)] (to_number price)"
    and "truthy price \<Longrightarrow> truthy v"
  using assms
  by (auto simp: js_or_lazy_Inr bind_exn_Inr first_of_Inr js_or_def head_of_def)

lemma snapshot_Some:
  assumes "snapshot sy mo qo ts = Inr (Some d)"
  shows "\<exists>m q. mo = Some m \<and> qo = Some q
         \<and> truthy (regularMarketPrice m)
         \<and> symbol d = sy
         \<and> currentPrice d = to_number (regularMarketPrice m)
         \<and> previousClose d =
             first_truthy [meta_previousClose m, chartPreviousClose m, head_of (q_close q)] (currentPrice d)
         \<and> high d = first_truthy [regularMarketDayHigh m, head_of (q_high q)] (currentPrice d)
         \<and> low d = first_truthy [regularMarketDayLow m, head_of (q_low q)] (currentPrice d)
         \<and> open_price d = first_truthy [regularMarketOpen m, head_of (q_open q)] (currentPrice d)
         \<and> volume d = first_truthy [head_of (q_volume q)] 0
         \<and> marketCap d = first_truthy [meta_marketCap m] 0
         \<and> changeAmount d = currentPrice d - previousClose d
         \<and> changePercent d = changeAmount d / previousClose d * 100"
proof -
  let ?rest = "\<lambda>m prev.
       bind_exn (deref (meta_symbol m)) (\<lambda>msym.
       bind_exn (first_of qo q_volume) (\<lambda>vol.
       bind_exn (js_or_lazy (regularMarketDayHigh m)
                  (bind_exn (first_of qo q_high) (\<lambda>c. Inr (js_or c (regularMarketPrice m))))) (\<lambda>hi.
       bind_exn (js_or_lazy (regularMarketDayLow m)
                  (bind_exn (first_of qo q_low) (\<lambda>c. Inr (js_or c (regularMarketPrice m))))) (\<lambda>lo.
       bind_exn (js_or_lazy (regularMarketOpen m)
                  (bind_exn (first_of qo q_open) (\<lambda>c. Inr (js_or c (regularMarketPrice m))))) (\<lambda>op.
       bind_exn (toISOString ts) (\<lambda>iso.
       Inr (Some \<lparr>symbol = sy,
                  name = replace_first ''.AX'' [] msym,
                  currentPrice = to_number (regularMarketPrice m),
                  changePercent = (if truthy prev
                     then ((to_number (regularMarketPrice m) - to_number prev) / to_number prev) * 100 else 0),
                  changeAmount = to_number (regularMarketPrice m) - to_number prev,
                  volume = to_number (js_or vol (JNum 0)),
                  marketCap = to_number (js_or (meta_marketCap m) (JNum 0)),
                  high = to_number hi,
                  low = to_number lo,
                  open_price = to_number op,
                  previousClose = to_number prev,
                  lastUpdated = iso\<rparr>)))))))"
  from assms obtain m where m: "mo = Some m"
    by (cases mo) (auto simp: snapshot_def)
  from assms[unfolded m snapshot_def Let_def] obtain prev where
      p: "js_or_lazy (meta_previousClose m)
             (js_or_lazy (chartPreviousClose m)
               (bind_exn (first_of qo q_close) (\<lambda>c. Inr (js_or c (regularMarketPrice m))))) = Inr prev"
    and c: "(if \<not> truthy (regularMarketPrice m) then Inr None else ?rest m prev) = Inr (Some d)"
    by (auto simp: bind_exn_Inr simp del: bind_exn_simps)
  have t: "truthy (regularMarketPrice m)"
    using c by (cases "truthy (regularMarketPrice m)") simp_all
  with c have rest: "?rest m prev = Inr (Some d)" by simp
  from rest obtain msym vol hi lo op iso where
      v: "first_of qo q_volume = Inr vol"
    and h: "js_or_lazy (regularMarketDayHigh m)
              (bind_exn (first_of qo q_high) (\<lambda>c. Inr (js_or c (regularMarketPrice m)))) = Inr hi"
    and l: "js_or_lazy (regularMarketDayLow m)
              (bind_exn (first_of qo q_low) (\<lambda>c. Inr (js_or c (regularMarketPrice m)))) = Inr lo"
    and o: "js_or_lazy (regularMarketOpen m)
              (bind_exn (first_of qo q_open) (\<lambda>c. Inr (js_or c (regularMarketPrice m)))) = Inr op"
    and d: "d = \<lparr>symbol = sy,
                 name = replace_first ''.AX'' [] msym,
                 currentPrice = to_number (regularMarketPrice m),
                 changePercent = (if truthy prev
                    then ((to_number (regularMarketPrice m) - to_number prev) / to_number prev) * 100 else 0),
                 changeAmount = to_number (regularMarketPrice m) - to_number prev,
                 volume = to_number (js_or vol (JNum 0)),
                 marketCap = to_number (js_or (meta_marketCap m) (JNum 0)),
                 high = to_number hi,
                 low = to_number lo,
                 open_price = to_number op,
                 previousClose = to_number prev,
                 lastUpdated = iso\<rparr>"
    unfolding bind_exn_Inr by (elim exE conjE) auto
  from v obtain q where q: "qo = Some q"
    by (auto simp: first_of_Inr)
  note pq = p[unfolded q]
  have pv: "truthy prev" using fallback_two(2)[OF pq t] .
  have "volume d = first_truthy [head_of (q_volume q)] 0"
    using v unfolding q d by (auto simp: first_of_Inr js_or_def head_of_def)
  moreover have "marketCap d = first_truthy [meta_marketCap m] 0"
    unfolding d by (simp add: js_or_def)
  moreover have "previousClose d =
      first_truthy [meta_previousClose m, chartPreviousClose m, head_of (q_close q)] (currentPrice d)"
    using fallback_two(1)[OF pq] unfolding d by simp
  moreover have "high d = first_truthy [regularMarketDayHigh m, head_of (q_high q)] (currentPrice d)"
    using fallback_one(1)[OF h[unfolded q]] unfolding d by simp
  moreover have "low d = first_truthy [regularMarketDayLow m, head_of (q_low q)] (currentPrice d)"
    using fallback_one(1)[OF l[unfolded q]] unfolding d by simp
  moreover have "open_price d = first_truthy [regularMarketOpen m, head_of (q_open q)] (currentPrice d)"
    using fallback_one(1)[OF o[unfolded q]] unfolding d by simp
  moreover have "changeAmount d = currentPrice d - previousClose d" unfolding d by simp
  moreover have "changePercent d = changeAmount d / previousClose d * 100"
    using pv unfolding d by simp
  moreover have "symbol d = sy" "currentPrice d = to_number (regularMarketPrice m)"
    unfolding d by simp_all
  ultimately show ?thesis using m q t by blast
qed

lemma getStockData_try_Some:
  assumes "getStockData_try sy fetch = Inr (Some d)"
  shows "\<exists>data res stamps. fetch (convertToYahooSymbol sy) = Response True (Some data)
         \<and> first_result data = Some res \<and> timestamp res = Some stamps
         \<and> snapshot sy (meta res) (first_quote res) (head_of (timestamp res)) = Inr (Some d)"
proof -
  from assms obtain data where f: "fetch (convertToYahooSymbol sy) = Response True (Some data)"
    by (auto simp: getStockData_try_def Let_def split: fetch_result.splits if_splits option.splits)
  from assms f obtain res where r: "first_result data = Some res"
    by (auto simp: getStockData_try_def Let_def first_result_def split: option.splits list.splits)
  from r obtain ch rest where c: "chart data = Some ch" "result ch = Some (res # rest)"
    by (auto simp: first_result_def split: option.splits list.splits)
  from assms have "bind_exn (deref (indicators res)) (\<lambda>ind.
                    bind_exn (deref (quote ind)) (\<lambda>quotes.
                    bind_exn (deref (timestamp res)) (\<lambda>stamps.
                    snapshot sy (meta res) (case quotes of [] \<Rightarrow> None | q0 # _ \<Rightarrow> Some q0) (at0 stamps))))
                   = Inr (Some d)"
    by (simp add: getStockData_try_def Let_def f c)
  then obtain ind quotes stamps where
      i: "indicators res = Some ind" "quote ind = Some quotes" "timestamp res = Some stamps"
    and sn: "snapshot sy (meta res) (case quotes of [] \<Rightarrow> None | q0 # _ \<Rightarrow> Some q0) (at0 stamps) = Inr (Some d)"
    unfolding bind_exn_Inr deref_Inr by blast
  have "first_quote res = (case quotes of [] \<Rightarrow> None | q0 # _ \<Rightarrow> Some q0)"
    using i by (simp add: first_quote_def)
  moreover have "head_of (timestamp res) = at0 stamps"
    using i by (simp add: head_of_def)
  ultimately have "snapshot sy (meta res) (first_quote res) (head_of (timestamp res)) = Inr (Some d)"
    using sn by simp
  with f r i(3) show ?thesis by blast
qed

lemma getStockData_Some_iff: "getStockData sy fetch = Some d \<longleftrightarrow> getStockData_try sy fetch = Inr (Some d)"
  by (cases "getStockData_try sy fetch") (auto simp: getStockData_def)

lemma getStockData_Some:
  assumes "getStockData sy fetch = Some d"
  shows "\<exists>data res m q stamps.
           fetch (convertToYahooSymbol sy) = Response True (Some data)
         \<and> first_result data = Some res \<and> meta res = Some m \<and> first_quote res = Some q
         \<and> timestamp res = Some stamps
         \<and> truthy (regularMarketPrice m)
         \<and> symbol d = sy
         \<and> currentPrice d = to_number (regularMarketPrice m)
         \<and> previousClose d =
             first_truthy [meta_previousClose m, chartPreviousClose m, head_of (q_close q)] (currentPrice d)
         \<and> high d = first_truthy [regularMarketDayHigh m, head_of (q_high q)] (currentPrice d)
         \<and> low d = first_truthy [regularMarketDayLow m, head_of (q_low q)] (currentPrice d)
         \<and> open_price d = first_truthy [regularMarketOpen m, head_of (q_open q)] (currentPrice d)
         \<and> volume d = first_truthy [head_of (q_volume q)] 0
         \<and> marketCap d = first_truthy [meta_marketCap m] 0
         \<and> changeAmount d = currentPrice d - previousClose d
         \<and> changePercent d = changeAmount d / previousClose d * 100"
proof -
  from assms have "getStockData_try sy fetch = Inr (Some d)" by (simp add: getStockData_Some_iff)
  from getStockData_try_Some[OF this] obtain data res stamps where
    a: "fetch (convertToYahooSymbol sy) = Response True (Some data)"
       "first_result data = Some res" "timestamp res = Some stamps"
    and sn: "snapshot sy (meta res) (first_quote res) (head_of (timestamp res)) = Inr (Some d)"
    by blast
  from snapshot_Some[OF sn] a show ?thesis by blast
qed

lemma first_result_None: "no_chart_data data \<longleftrightarrow> first_result data = None"
  by (auto simp: no_chart_data_def first_result_def split: option.splits list.splits)

lemma sample_snapshot:
  "getStockData ''BHP'' sample_backend =
     Some \<lparr>symbol = ''BHP'', name = ''BHP'', currentPrice = 45, changePercent = (1 / 44) * 100,
           changeAmount = 1, volume = 1000, marketCap = 0, high = 46, low = 43, open_price = 45,
           previousClose = 44, lastUpdated = 1700000000000\<rparr>"
  by (simp add: getStockData_def getStockData_try_def snapshot_def sample_backend_def sample_result_def
        sample_meta_def sample_quote_def convertToYahooSymbol_def endsWith_def Let_def
        js_or_lazy_def js_or_def first_of_def toISOString_def)




text \<open>
  Claim C7, as amended. The symbol conversions never fail and never throw, and there is
  no sentinel: for every input, the empty string included, \<open>convertToYahooSymbol\<close> returns
  a non-empty string ending in \<^verbatim>\<open>.AX\<close>, and the selection keeps the input or returns the
  prefixed one. The consumer sends the converted symbol to the backend whatever it is:
  whether \<open>getStockData\<close> returns \<^verbatim>\<open>null\<close> depends on the answer of the backend only.
\<close>

theorem normalization_total_no_sentinel:
  "endsWith (convertToYahooSymbol s) ''.AX''
   \<and> convertToYahooSymbol s \<noteq> []
   \<and> (tradingViewSymbol s = s \<or> tradingViewSymbol s = ''ASX:'' @ replace_first ''.AX'' [] s)
   \<and> (fetch (convertToYahooSymbol s) = fetch' (convertToYahooSymbol s')
        \<longrightarrow> (getStockData s fetch = None \<longleftrightarrow> getStockData s' fetch' = None))"
proof (intro conjI impI)
  show e: "endsWith (convertToYahooSymbol s) ''.AX''" by (rule convert_suffixed)
  then show "convertToYahooSymbol s \<noteq> []" by (auto simp: endsWith_def)
  show "tradingViewSymbol s = s \<or> tradingViewSymbol s = ''ASX:'' @ replace_first ''.AX'' [] s"
    by (simp add: tradingViewSymbol_def)
next
  assume "fetch (convertToYahooSymbol s) = fetch' (convertToYahooSymbol s')"
  from getStockData_symbol_free[of fetch s fetch' s', OF this]
  show "getStockData s fetch = None \<longleftrightarrow> getStockData s' fetch' = None" by simp
qed

theorem normalization_total_no_sentinel_witness:
  "sample_backend (convertToYahooSymbol []) = sample_backend (convertToYahooSymbol ''BHP'')
   \<and> endsWith (convertToYahooSymbol []) ''.AX''
   \<and> (getStockData [] sample_backend = None \<longleftrightarrow> getStockData ''BHP'' sample_backend = None)"
proof -
  have h: "sample_backend (convertToYahooSymbol []) = sample_backend (convertToYahooSymbol ''BHP'')"
    by (simp add: sample_backend_def)
  show ?thesis
    using h normalization_total_no_sentinel[of "[]" sample_backend sample_backend "''BHP''"] by blast
qed

text \<open>
  The claim as stated fails on the empty symbol: the conversions return \<^verbatim>\<open>.AX\<close> and the
  empty string, neither marked as unrecognized, and the consumer returns a snapshot
  when the backend answers the request for \<^verbatim>\<open>.AX\<close> with data.
\<close>

theorem empty_symbol_counterexample:
  "convertToYahooSymbol [] = ''.AX'' \<and> tradingViewSymbol [] = []
   \<and> getStockData [] sample_backend \<noteq> None"
proof -
  have "sample_backend (convertToYahooSymbol []) = sample_backend (convertToYahooSymbol ''BHP'')"
    by (simp add: sample_backend_def)
  from getStockData_symbol_free[of sample_backend "[]" sample_backend "''BHP''", OF this] sample_snapshot
  have "getStockData [] sample_backend \<noteq> None" by simp
  moreover have "convertToYahooSymbol [] = ''.AX''" by code_simp
  moreover have "tradingViewSymbol [] = []" by code_simp
  ultimately show ?thesis by simp
qed

section \<open>Properties of the watchlist refresh\<close>

lemma fetchRealTimeData_length: "length (fetchRealTimeData net wls) = length wls"
  by (simp add: fetchRealTimeData_def)

lemma fetchRealTimeData_nth:
  assumes "i < length wls"
  shows "fetchRealTimeData net wls ! i =
           (case items (wls ! i) of
              None \<Rightarrow> wls ! i
            | Some its \<Rightarrow>
                (wls ! i)\<lparr>items :=
                  Some (map (\<lambda>(j, item). refreshItem (getStockData (item_symbol item) (net i j)) item)
                            (enumerate 0 its))\<rparr>)"
  using assms by (simp add: fetchRealTimeData_def nth_enumerate_eq)

lemma fetchRealTimeData_item:
  assumes "i < length wls" "items (wls ! i) = Some its" "j < length its"
  shows "\<exists>its'. items (fetchRealTimeData net wls ! i) = Some its'
               \<and> length its' = length its
               \<and> its' ! j = refreshItem (getStockData (item_symbol (its ! j)) (net i j)) (its ! j)"
  using assms by (simp add: fetchRealTimeData_nth nth_enumerate_eq)

lemma refreshItem_None [simp]: "refreshItem None item = item"
  by (simp add: refreshItem_def)

lemma sample_first_fetch:
  "getStockData ''BHP.AX'' (second_fails 0 0) =
     Some \<lparr>symbol = ''BHP.AX'', name = ''BHP'', currentPrice = 45, changePercent = (1 / 44) * 100,
           changeAmount = 1, volume = 1000, marketCap = 0, high = 46, low = 43, open_price = 45,
           previousClose = 44, lastUpdated = 1700000000000\<rparr>"
proof -
  have "second_fails 0 0 (convertToYahooSymbol ''BHP.AX'') = sample_backend (convertToYahooSymbol ''BHP'')"
    by (simp add: second_fails_def sample_backend_def)
  from getStockData_symbol_free[of "second_fails 0 0" "''BHP.AX''" sample_backend "''BHP''", OF this]
  show ?thesis by (simp add: sample_snapshot)
qed

lemma sample_second_fetch: "getStockData sy (second_fails i (Suc 0)) = None"
  by (simp add: getStockData_def getStockData_try_def second_fails_def)



text \<open>
  \<open>getMultipleStocksData\<close> likewise keeps the result of every symbol whose fetch
  succeeded, whatever happens to the others.
\<close>

lemma getMultipleStocksData_keeps:
  assumes "sy \<in> set symbols" "getStockData sy fetch = Some d"
  shows "d \<in> set (getMultipleStocksData symbols fetch)"
proof -
  from assms have "Some d \<in> set (filter (\<lambda>r. r \<noteq> None) (map (\<lambda>s. getStockData s fetch) symbols))"
    by force
  then have "the (Some d) \<in> the ` set (filter (\<lambda>r. r \<noteq> None) (map (\<lambda>s. getStockData s fetch) symbols))"
    by (rule imageI)
  then show ?thesis by (simp add: getMultipleStocksData_def)
qed

lemma ticks_in_flight:
  "in_flight (poll_run s (replicate n Tick)) = in_flight s @ replicate n (watchlists s)
   \<and> watchlists (poll_run s (replicate n Tick)) = watchlists s"
proof (induction n arbitrary: s)
  case 0
  then show ?case by (simp add: poll_run_def)
next
  case (Suc n)
  have "poll_run s (replicate (Suc n) Tick) = poll_run (poll_step s Tick) (replicate n Tick)"
    by (simp add: poll_run_def)
  with Suc[of "poll_step s Tick"] show ?case
    by (simp add: replicate_append_same)
qed

text \<open>
  Claim C5, as amended. The timer has no guard: every tick starts a new cycle for the
  current working set, whatever is still in flight, so \<open>n\<close> ticks without a settlement
  add \<open>n\<close> cycles in flight. When a cycle settles, the watchlists become the result it
  computed from the working set it captured, and that cycle alone leaves the list.
\<close>

theorem ticks_start_cycles:
  "in_flight (poll_step s Tick) = in_flight s @ [watchlists s]
   \<and> watchlists (poll_step s Tick) = watchlists s
   \<and> in_flight (poll_run s (replicate n Tick)) = in_flight s @ replicate n (watchlists s)
   \<and> (k < length (in_flight s) \<longrightarrow>
        watchlists (poll_step s (Settle k net)) = fetchRealTimeData net (in_flight s ! k)
      \<and> length (in_flight (poll_step s (Settle k net))) = length (in_flight s) - 1)"
  using ticks_in_flight[of s n] by auto

theorem ticks_start_cycles_witness:
  "(0::nat) < length (in_flight \<lparr>watchlists = [], in_flight = [sample_watchlists]\<rparr>)
   \<and> watchlists (poll_step \<lparr>watchlists = [], in_flight = [sample_watchlists]\<rparr> (Settle 0 second_fails))
       = fetchRealTimeData second_fails sample_watchlists
   \<and> in_flight (poll_run \<lparr>watchlists = [], in_flight = [sample_watchlists]\<rparr> (replicate 3 Tick))
       = [sample_watchlists, [], [], []]"
  using ticks_start_cycles[of "\<lparr>watchlists = [], in_flight = [sample_watchlists]\<rparr>" 3 0 second_fails]
  by (simp add: numeral_3_eq_3)

text \<open>
  The claim as stated fails: two ticks, none of them settled in between, leave two
  refresh cycles of the same working set in flight together.
\<close>

theorem overlapping_cycles_counterexample:
  "in_flight (poll_run \<lparr>watchlists = sample_watchlists, in_flight = []\<rparr> [Tick, Tick])
     = [sample_watchlists, sample_watchlists]"
  by (simp add: poll_run_def)

section \<open>Properties of the resizable panes\<close>

lemma Math_min_Finite [simp]: "Math_min (Finite a) (Finite b) = Finite (min a b)"
  by (simp add: Math_min_def min_def)

lemma Math_max_Finite [simp]: "Math_max (Finite a) (Finite b) = Finite (max a b)"
  by (simp add: Math_max_def max_def)

lemma js_divide_Finite [simp]: "b \<noteq> 0 \<Longrightarrow> js_divide a b = Finite (a / b)"
  by (simp add: js_divide_def)

lemma axis_clamp:
  fixes p st ext mn mx :: real
  assumes "mn \<le> mx" "0 < ext"
  shows "mn \<le> max mn (min mx ((p - st) / ext * 100))"
    and "max mn (min mx ((p - st) / ext * 100)) \<le> mx"
    and "0 \<le> mn \<Longrightarrow> p \<le> st \<Longrightarrow> max mn (min mx ((p - st) / ext * 100)) = mn"
    and "mx \<le> 100 \<Longrightarrow> st + ext \<le> p \<Longrightarrow> max mn (min mx ((p - st) / ext * 100)) = mx"
proof -
  define a where "a = (p - st) / ext"
  show "mn \<le> max mn (min mx ((p - st) / ext * 100))" by (rule max.cobounded1)
  show "max mn (min mx ((p - st) / ext * 100)) \<le> mx" using assms(1) by (simp only: max.bounded_iff min.cobounded1 simp_thms)
  show "max mn (min mx ((p - st) / ext * 100)) = mn" if "0 \<le> mn" "p \<le> st"
  proof -
    from that(2) assms(2) have "a \<le> 0" unfolding a_def by (simp add: divide_le_0_iff)
    with that(1) assms(1) have "max mn (min mx (a * 100)) = mn" by (simp add: max_def min_def)
    then show ?thesis unfolding a_def .
  qed
  show "max mn (min mx ((p - st) / ext * 100)) = mx" if "mx \<le> 100" "st + ext \<le> p"
  proof -
    from that(2) assms(2) have "1 \<le> a" unfolding a_def by (simp add: le_divide_eq)
    with that(1) assms(1) have "max mn (min mx (a * 100)) = mx" by (simp add: max_def min_def)
    then show ?thesis unfolding a_def .
  qed
qed

lemma resize_horizontal:
  assumes "isResizing s" "rect_width r \<noteq> 0"
  shows "pane_size (resize minSize maxSize False (Some r) e s) =
           Finite (max minSize (min maxSize ((clientX e - rect_left r) / rect_width r * 100)))"
  using assms by (simp add: resize_def Let_def)

lemma resize_vertical:
  assumes "isResizing s" "rect_height r \<noteq> 0"
  shows "pane_size (resize minSize maxSize True (Some r) e s) =
           Finite (max minSize (min maxSize ((clientY e - rect_top r) / rect_height r * 100)))"
  using assms by (simp add: resize_def Let_def)

text \<open>
  Claim C6. During an active drag (\<open>isResizing\<close>), over a container that has a positive
  extent along the axis, and for bounds with \<open>minSize \<le> maxSize\<close>: for every pointer
  position, inside the container or not, the new size is a number within
  \<open>[minSize, maxSize]\<close>. With percentage bounds (\<open>0 \<le> minSize\<close>, \<open>maxSize \<le> 100\<close>), a
  pointer at or before the leading edge gives exactly \<open>minSize\<close>, and a pointer at or
  past the trailing edge gives exactly \<open>maxSize\<close>.
\<close>

theorem resize_within_bounds:
  assumes "isResizing s" "minSize \<le> maxSize"
    and "0 < (if isVertical then rect_height r else rect_width r)"
  shows "\<exists>v. pane_size (resize minSize maxSize isVertical (Some r) e s) = Finite v
           \<and> minSize \<le> v \<and> v \<le> maxSize
           \<and> (0 \<le> minSize
                \<and> (if isVertical then clientY e else clientX e)
                     \<le> (if isVertical then rect_top r else rect_left r)
                \<longrightarrow> v = minSize)
           \<and> (maxSize \<le> 100
                \<and> (if isVertical then rect_top r + rect_height r else rect_left r + rect_width r)
                     \<le> (if isVertical then clientY e else clientX e)
                \<longrightarrow> v = maxSize)"
proof (cases isVertical)
  case True
  with assms(3) have ext: "0 < rect_height r" by simp
  note c = axis_clamp[where p = "clientY e" and st = "rect_top r", OF assms(2) ext]
  have "pane_size (resize minSize maxSize isVertical (Some r) e s) =
          Finite (max minSize (min maxSize ((clientY e - rect_top r) / rect_height r * 100)))"
    using True assms(1) ext resize_vertical[of s r minSize maxSize e] by simp
  with c True show ?thesis by auto
next
  case False
  with assms(3) have ext: "0 < rect_width r" by simp
  note c = axis_clamp[where p = "clientX e" and st = "rect_left r", OF assms(2) ext]
  have "pane_size (resize minSize maxSize isVertical (Some r) e s) =
          Finite (max minSize (min maxSize ((clientX e - rect_left r) / rect_width r * 100)))"
    using False assms(1) ext resize_horizontal[of s r minSize maxSize e] by simp
  with c False show ?thesis by auto
qed

theorem resize_within_bounds_witness:
  "isResizing (startResizing (useResizable 30)) \<and> (20::real) \<le> 50
   \<and> pane_size (resize 20 50 False
        (Some \<lparr>rect_left = 100, rect_top = 0, rect_width = 1000, rect_height = 600\<rparr>)
        \<lparr>clientX = 5000, clientY = 10\<rparr> (startResizing (useResizable 30))) = Finite 50
   \<and> pane_size (resize 20 50 False
        (Some \<lparr>rect_left = 100, rect_top = 0, rect_width = 1000, rect_height = 600\<rparr>)
        \<lparr>clientX = -40, clientY = 10\<rparr> (startResizing (useResizable 30))) = Finite 20"
proof -
  let ?r = "\<lparr>rect_left = 100, rect_top = 0, rect_width = 1000, rect_height = 600\<rparr>"
  let ?s = "startResizing (useResizable 30)"
  have h: "isResizing ?s" "(20::real) \<le> 50" "0 < (if False then rect_height ?r else rect_width ?r)"
    by (simp_all add: startResizing_def useResizable_def)
  from resize_within_bounds[of ?s 20 50 False ?r "\<lparr>clientX = 5000, clientY = 10\<rparr>", OF h]
  have a: "pane_size (resize 20 50 False (Some ?r) \<lparr>clientX = 5000, clientY = 10\<rparr> ?s) = Finite 50"
    by auto
  from resize_within_bounds[of ?s 20 50 False ?r "\<lparr>clientX = -40, clientY = 10\<rparr>", OF h]
  have b: "pane_size (resize 20 50 False (Some ?r) \<lparr>clientX = -40, clientY = 10\<rparr> ?s) = Finite 20"
    by auto
  from h a b show ?thesis by simp
qed

text \<open>
  Outside a drag, or without a container, \<open>resize\<close> leaves the state as it is. A
  container of extent zero is outside the claim: there the division is \<^verbatim>\<open>0 / 0\<close> for a
  pointer on the edge, and \<^verbatim>\<open>Math.min\<close> and \<^verbatim>\<open>Math.max\<close> pass the \<^verbatim>\<open>NaN\<close> on.
\<close>

lemma resize_idle:
  "\<not> isResizing s \<Longrightarrow> resize minSize maxSize isVertical container e s = s"
  "resize minSize maxSize isVertical None e s = s"
  by (simp_all add: resize_def)

lemma resize_degenerate:
  assumes "isResizing s" "rect_width r = 0" "clientX e = rect_left r"
  shows "pane_size (resize minSize maxSize False (Some r) e s) = NaN"
  using assms by (simp add: resize_def js_divide_def Math_min_def Math_max_def)

section \<open>Properties of the search\<close>

lemma dashboard_run_snoc: "dashboard_run d (es @ [e]) = dashboard_step (dashboard_run d es) e"
  by (simp add: dashboard_run_def)

text \<open>
  Claim C2, as amended. Results are applied in the order the responses arrive. A query
  shorter than two characters clears the results at once and sends nothing; a longer
  one sends a request and leaves the results as they are. When the response of any
  pending request arrives, after whatever events, its results (or the empty list, if the
  request failed) become the search results and the query on display stays as it is.
\<close>

theorem search_results_follow_responses:
  "(length q < 2 \<longrightarrow>
      searchResults (dashboard_step d (QueryInput q)) = []
    \<and> pending (dashboard_step d (QueryInput q)) = pending d)
   \<and> (2 \<le> length q \<longrightarrow>
      pending (dashboard_step d (QueryInput q)) = pending d @ [q]
    \<and> searchResults (dashboard_step d (QueryInput q)) = searchResults d
    \<and> isSearching (dashboard_step d (QueryInput q)))
   \<and> (k < length (pending (dashboard_run d es)) \<longrightarrow>
      searchResults (dashboard_run d (es @ [SearchSettled k r]))
        = (case r of Some results \<Rightarrow> results | None \<Rightarrow> [])
    \<and> searchQuery (dashboard_run d (es @ [SearchSettled k r])) = searchQuery (dashboard_run d es)
    \<and> length (pending (dashboard_run d (es @ [SearchSettled k r])))
        = length (pending (dashboard_run d es)) - 1)"
  by (auto simp: dashboard_run_snoc searchStocks_def searchStocks_settled_def)

theorem search_results_follow_responses_witness:
  "(1::nat) < length (pending (dashboard_run dashboard_init [QueryInput ''BH'', QueryInput ''BHP'']))
   \<and> 2 \<le> length ''BHP''
   \<and> searchResults (dashboard_run dashboard_init
        ([QueryInput ''BH'', QueryInput ''BHP''] @ [SearchSettled 1 (Some [bhp_hit])])) = [bhp_hit]
   \<and> pending (dashboard_step dashboard_init (QueryInput ''BHP'')) = [''BHP'']
   \<and> searchResults (dashboard_step dashboard_init (QueryInput ''B'')) = []"
proof -
  have h: "(1::nat) < length (pending (dashboard_run dashboard_init [QueryInput ''BH'', QueryInput ''BHP'']))"
    by (simp add: dashboard_run_def dashboard_init_def searchStocks_def)
  have i: "pending dashboard_init = []" by (simp add: dashboard_init_def)
  show ?thesis
    using h i
      search_results_follow_responses[of "''BHP''" dashboard_init 1
        "[QueryInput ''BH'', QueryInput ''BHP'']" "Some [bhp_hit]"]
      search_results_follow_responses[of "''B''" dashboard_init 1
        "[QueryInput ''BH'', QueryInput ''BHP'']" "Some [bhp_hit]"]
    by simp
qed

text \<open>
  The claim as stated fails when responses overtake each other: \<^verbatim>\<open>BH\<close> then \<^verbatim>\<open>BHP\<close> are
  typed, the answer to \<^verbatim>\<open>BHP\<close> arrives first and the answer to \<^verbatim>\<open>BH\<close> last. The query
  on display is \<^verbatim>\<open>BHP\<close> and the results are those of \<^verbatim>\<open>BH\<close>.
\<close>

theorem stale_result_applied_counterexample:
  "searchQuery (dashboard_run dashboard_init raced_search) = ''BHP''
   \<and> searchResults (dashboard_run dashboard_init raced_search) = [bhp_hit, bhg_hit]
   \<and> pending (dashboard_run dashboard_init raced_search) = []"
  by (simp add: dashboard_run_def raced_search_def dashboard_init_def searchStocks_def
        searchStocks_settled_def)

section \<open>Properties of the chart widget\<close>

lemma replay_append:
  "replay ph (cs @ ds) = (case replay ph cs of None \<Rightarrow> None | Some q \<Rightarrow> replay q ds)"
  by (induction ph cs rule: replay.induct) auto

lemma tracked_update [simp]:
  "tracked (s\<lparr>chart_selectedStock := x\<rparr>) = tracked s"
  "tracked (s\<lparr>isLoading := b\<rparr>) = tracked s"
  "tracked (s\<lparr>refreshKey := n\<rparr>) = tracked s"
  "tracked (s\<lparr>mounted := b\<rparr>) = tracked s"
  by (simp_all add: tracked_def split: option.splits widget_phase.splits)

lemma tracked_error: "tracked s \<Longrightarrow> tracked (s\<lparr>chartError := Some m\<rparr>)"
  by (auto simp: tracked_def split: option.splits widget_phase.splits)

lemma removeWidget_tracked:
  assumes "tracked s"
  shows "tracked (removeWidget env s)" and "widgetRef (removeWidget env s) = None"
    and "chartError s = None \<Longrightarrow> replay NoWidget (calls (removeWidget env s)) = Some NoWidget"
  using assms
  by (cases "widgetRef s";
      auto simp: tracked_def removeWidget_def replay_append split: option.splits widget_phase.splits)+

lemma removeWidget_keeps [simp]:
  "isLoading (removeWidget env s) = isLoading s"
  "chart_selectedStock (removeWidget env s) = chart_selectedStock s"
  "chartError (removeWidget env s) = chartError s"
  "mounted (removeWidget env s) = mounted s"
  by (cases "widgetRef s"; simp add: removeWidget_def)+

lemma createWidget_tracked: "tracked s \<Longrightarrow> tracked (createWidget env stock s)"
proof -
  assume t: "tracked s"
  show ?thesis
  proof (cases "container_rendered s \<and> library_ready env")
    case False
    with t show ?thesis by (auto simp: createWidget_def)
  next
    case True
    then have e: "chartError s = None" by (simp add: container_rendered_def)
    note r = removeWidget_tracked(2)[OF t, of env] removeWidget_tracked(3)[OF t e, of env]
    from True r show ?thesis
      by (simp add: createWidget_def Let_def tracked_def replay_append)
  qed
qed

lemma widget_effect_tracked: "tracked s \<Longrightarrow> tracked (widget_effect env s)"
  by (simp add: widget_effect_def createWidget_tracked)

lemma metrics_effect_tracked: "tracked s \<Longrightarrow> tracked (metrics_effect s)"
  by (auto simp: metrics_effect_def tracked_def replay_append split: option.splits widget_phase.splits)

lemma handle_event_tracked: "tracked s \<Longrightarrow> tracked (handle_event env s e)"
  by (cases e)
     (simp_all add: setIsLoading_false_def setSelectedStock_def createWidget_tracked
        widget_effect_tracked metrics_effect_tracked removeWidget_tracked tracked_error)

lemma chart_step_tracked: "tracked s \<Longrightarrow> tracked (chart_step env s e)"
  by (simp add: chart_step_def handle_event_tracked)

lemma chart_run_tracked: "tracked s \<Longrightarrow> tracked (chart_run s es)"
  by (induction s es rule: chart_run.induct) (simp_all add: chart_step_tracked)

lemma chart_mount_tracked: "tracked (chart_mount p)"
  by (simp add: chart_mount_def metrics_effect_def tracked_def Let_def)

lemma filter_calls_simps [simp]:
  "is_construct (Construct sy r)" "\<not> is_construct (Teardown h out)" "\<not> is_construct (MetricsRequest sy)"
  "is_teardown (Teardown h out)" "\<not> is_teardown (Construct sy r)" "\<not> is_teardown (MetricsRequest sy)"
  by (simp_all add: is_construct_def is_teardown_def)

lemma removeWidget_counts:
  "length (filter is_construct (calls (removeWidget env s))) = length (filter is_construct (calls s))"
  "length (filter is_teardown (calls (removeWidget env s))) \<le> length (filter is_teardown (calls s)) + 1"
  by (cases "widgetRef s"; simp add: removeWidget_def)+

lemma createWidget_counts:
  "length (filter is_construct (calls (createWidget env stock s))) \<le> length (filter is_construct (calls s)) + 1"
  "length (filter is_teardown (calls (createWidget env stock s))) \<le> length (filter is_teardown (calls s)) + 1"
  using removeWidget_counts[of env s] by (simp_all add: createWidget_def Let_def)

lemma widget_effect_counts:
  "length (filter is_construct (calls (widget_effect env s))) \<le> length (filter is_construct (calls s)) + 1"
  "length (filter is_teardown (calls (widget_effect env s))) \<le> length (filter is_teardown (calls s)) + 1"
  using createWidget_counts[of env "chart_selectedStock s" s] by (simp_all add: widget_effect_def)

lemma metrics_effect_counts [simp]:
  "filter is_construct (calls (metrics_effect s)) = filter is_construct (calls s)"
  "filter is_teardown (calls (metrics_effect s)) = filter is_teardown (calls s)"
  by (simp_all add: metrics_effect_def)

lemma setSelectedStock_counts:
  "length (filter is_construct (calls (setSelectedStock env stock s))) \<le> length (filter is_construct (calls s)) + 1"
  "length (filter is_teardown (calls (setSelectedStock env stock s))) \<le> length (filter is_teardown (calls s)) + 1"
  using widget_effect_counts[of env "s\<lparr>chart_selectedStock := stock\<rparr>"]
  by (simp_all add: setSelectedStock_def)

lemma change_counts:
  assumes "is_change e"
  shows "length (filter is_construct (calls (chart_step env s e))) \<le> length (filter is_construct (calls s)) + 1"
    and "length (filter is_teardown (calls (chart_step env s e))) \<le> length (filter is_teardown (calls s)) + 1"
  using assms setSelectedStock_counts[of env _ s] widget_effect_counts[of env "s\<lparr>refreshKey := refreshKey s + 1\<rparr>"]
    createWidget_counts[of env "chart_selectedStock s" s]
  by (cases e; simp add: is_change_def chart_step_def)+

lemma changes_counts:
  assumes "\<forall>x \<in> set es. is_change (snd x)"
  shows "length (filter is_construct (calls (chart_run s es))) \<le> length (filter is_construct (calls s)) + length es
       \<and> length (filter is_teardown (calls (chart_run s es))) \<le> length (filter is_teardown (calls s)) + length es"
  using assms
proof (induction s es rule: chart_run.induct)
  case (1 s)
  then show ?case by simp
next
  case (2 s env e es)
  then have c: "is_change e" and r: "\<forall>x \<in> set es. is_change (snd x)" by simp_all
  from "2.IH"[OF r] change_counts[OF c, of env s] show ?case by simp
qed

text \<open>What a log that \<open>replay\<close> accepts looks like between two calls of the same kind.\<close>

lemma broken_stays:
  assumes "replay Broken cs = Some q"
  shows "filter is_construct cs = [] \<and> filter is_teardown cs = []"
  using assms
proof (induction cs)
  case Nil
  then show ?case by simp
next
  case (Cons c cs)
  then show ?case by (cases c) simp_all
qed

lemma no_teardown_without_handle:
  assumes "replay NoWidget (m @ Construct sy r # b) = Some q"
    and "\<forall>c \<in> set m. \<not> is_construct c"
  shows "filter is_teardown m = []"
  using assms
proof (induction m)
  case Nil
  then show ?case by simp
next
  case (Cons c m)
  then show ?case by (cases c) simp_all
qed

lemma one_teardown_of_handle:
  assumes "replay (LiveWidget h) (m @ Construct sy r # b) = Some q"
    and "\<forall>c \<in> set m. \<not> is_construct c"
  shows "\<exists>out. filter is_teardown m = [Teardown h out]"
  using assms
proof (induction m)
  case Nil
  then show ?case by simp
next
  case (Cons c m)
  show ?case
  proof (cases c)
    case (Construct sy2 r2)
    with Cons.prems(2) show ?thesis by simp
  next
    case (Teardown h' out)
    with Cons.prems(1) have e: "h' = h" and r: "replay NoWidget (m @ Construct sy r # b) = Some q"
      by (simp_all split: if_splits)
    from no_teardown_without_handle[OF r] Cons.prems(2) have "filter is_teardown m = []" by simp
    with Teardown e show ?thesis by simp
  next
    case (MetricsRequest sy2)
    with Cons show ?thesis by simp
  qed
qed

lemma between_creations:
  assumes "replay NoWidget cs = Some q"
    and "cs = a @ [Construct sy r] @ mid @ [Construct sy' r'] @ b"
    and "\<forall>c \<in> set mid. \<not> is_construct c"
  shows "\<exists>h out. r = Some h \<and> filter is_teardown mid = [Teardown h out]"
proof -
  from assms(1,2) obtain p0 where "replay NoWidget a = Some p0"
    and r: "replay p0 (Construct sy r # mid @ Construct sy' r' # b) = Some q"
    by (auto simp: replay_append split: option.splits)
  then have n: "replay (case r of Some h \<Rightarrow> LiveWidget h | None \<Rightarrow> Broken) (mid @ Construct sy' r' # b) = Some q"
    by (simp split: if_splits)
  show ?thesis
  proof (cases r)
    case None
    with n have "replay Broken (mid @ Construct sy' r' # b) = Some q" by simp
    from broken_stays[OF this] show ?thesis by simp
  next
    case (Some h)
    with n have "replay (LiveWidget h) (mid @ Construct sy' r' # b) = Some q" by simp
    from one_teardown_of_handle[OF this assms(3)] Some show ?thesis by simp
  qed
qed

lemma one_creation_between_teardowns:
  assumes "replay NoWidget cs = Some q"
    and "cs = a @ [Teardown h out] @ mid @ [Teardown h' out'] @ b"
    and "\<forall>c \<in> set mid. \<not> is_teardown c"
  shows "\<exists>sy. filter is_construct mid = [Construct sy (Some h')]"
proof -
  from assms(1,2) obtain p0 where "replay NoWidget a = Some p0"
    and r: "replay p0 (Teardown h out # mid @ Teardown h' out' # b) = Some q"
    by (auto simp: replay_append split: option.splits)
  then have n: "replay NoWidget (mid @ Teardown h' out' # b) = Some q"
    by (simp split: if_splits)
  have live: "filter is_construct m = []"
    if "replay (LiveWidget k) (m @ Teardown h' out' # b) = Some q" "\<forall>c \<in> set m. \<not> is_teardown c"
    for m k
    using that
  proof (induction m)
    case Nil
    then show ?case by simp
  next
    case (Cons c m)
    then show ?case by (cases c) simp_all
  qed
  have live_h: "k = h'"
    if "replay (LiveWidget k) (m @ Teardown h' out' # b) = Some q" "\<forall>c \<in> set m. \<not> is_teardown c"
    for m k
    using that
  proof (induction m)
    case Nil
    then show ?case by (simp split: if_splits)
  next
    case (Cons c m)
    then show ?case by (cases c) simp_all
  qed
  from n assms(3) show ?thesis
  proof (induction mid)
    case Nil
    then show ?case by simp
  next
    case (Cons c m)
    show ?case
    proof (cases c)
      case (Construct sy2 r2)
      show ?thesis
      proof (cases r2)
        case None
        with Construct Cons.prems(1) have "replay Broken (m @ Teardown h' out' # b) = Some q" by simp
        from broken_stays[OF this] show ?thesis by simp
      next
        case (Some k)
        with Construct Cons.prems(1) have l: "replay (LiveWidget k) (m @ Teardown h' out' # b) = Some q" by simp
        from Cons.prems(2) have nt: "\<forall>c \<in> set m. \<not> is_teardown c" by simp
        from live[OF l nt] live_h[OF l nt] Construct Some show ?thesis by simp
      qed
    next
      case (Teardown k out2)
      with Cons.prems(2) show ?thesis by simp
    next
      case (MetricsRequest sy2)
      with Cons show ?thesis by simp
    qed
  qed
qed

lemma tracked_replay: "tracked s \<Longrightarrow> \<exists>q. replay NoWidget (calls s) = Some q"
  by (auto simp: tracked_def split: option.splits)


text \<open>
  The chart showing \<^verbatim>\<open>ASX:CSL\<close> has requested the metrics and constructed one widget;
  \<open>busy_session\<close> then changes the instrument twice, after which a refresh meets a
  constructor that throws: the retry, the next refresh and the next instrument find no
  container and call neither the constructor nor \<^verbatim>\<open>remove\<close>.
\<close>

lemma csl_chart_calls:
  "calls (snd csl_app) = [MetricsRequest ''CSL.AX'', Construct ''ASX:CSL'' (Some 1)]"
  by code_simp

lemma busy_session_calls:
  "calls (chart_run (snd csl_app) busy_session)
     = [MetricsRequest ''CSL.AX'', Construct ''ASX:CSL'' (Some 1), Teardown 1 Removed,
        Construct ''ASX:RIO'' (Some 3), MetricsRequest ''RIO.AX'', Teardown 3 Removed,
        Construct ''ASX:BHP'' (Some 6), MetricsRequest ''BHP.AX'', Teardown 6 Removed,
        Construct ''ASX:BHP'' None, MetricsRequest ''WES.AX'']"
  by code_simp


lemma removeWidget_live:
  "widgetRef s = Some h \<Longrightarrow>
     \<exists>out. calls (removeWidget env s) = calls s @ [Teardown h out] \<and> widgetRef (removeWidget env s) = None"
  by (simp add: removeWidget_def)

lemma removeWidget_selected [simp]:
  "removeWidget env (s\<lparr>chart_selectedStock := x\<rparr>) = (removeWidget env s)\<lparr>chart_selectedStock := x\<rparr>"
  by (cases "widgetRef s") (simp_all add: removeWidget_def)

lemma setSelectedStock_creates:
  assumes "library_ready env" "\<not> constructor_throws env"
    and "container_rendered s" "stock \<noteq> chart_selectedStock s" "stock \<noteq> []"
  shows "calls (setSelectedStock env stock s)
           = calls (removeWidget env s)
             @ [Construct stock (Some (length (calls (removeWidget env s)))),
                MetricsRequest (metricsSymbol stock)]"
    and "widgetRef (setSelectedStock env stock s) = Some (length (calls (removeWidget env s)))"
    and "chart_selectedStock (setSelectedStock env stock s) = stock"
    and "container_rendered (setSelectedStock env stock s)"
  using assms
  by (simp_all add: setSelectedStock_def widget_effect_def createWidget_def metrics_effect_def
        container_rendered_def Let_def)

lemma symbols_of_bhp_rio:
  "tradingViewSymbol ''BHP.AX'' = ''ASX:BHP''" "tradingViewSymbol ''RIO.AX'' = ''ASX:RIO''"
  "metricsSymbol ''ASX:BHP'' = ''BHP.AX''" "metricsSymbol ''ASX:RIO'' = ''RIO.AX''"
  by code_simp+

text \<open>
  Claim C8, as amended. With the chart on display (script loaded, no error) and another
  instrument shown, selecting BHP as the search and the watchlists name it (\<^verbatim>\<open>BHP.AX\<close>)
  makes \<^verbatim>\<open>ASX:BHP\<close> the selected state; the chart tears down the widget it had, if any,
  creates one with the symbol \<^verbatim>\<open>ASX:BHP\<close> and requests the metrics of \<^verbatim>\<open>BHP.AX\<close>. Selecting
  RIO next makes \<^verbatim>\<open>ASX:RIO\<close> the selected state; the chart tears down the BHP widget,
  once, then creates the RIO widget and requests the metrics of \<^verbatim>\<open>RIO.AX\<close>. The
  constructors are taken not to throw.
\<close>

theorem instrument_switch:
  assumes e1: "library_ready env1" "\<not> constructor_throws env1"
    and e2: "library_ready env2" "\<not> constructor_throws env2"
    and c: "container_rendered c" "chart_selectedStock c = selectedStock d" "selectedStock d \<noteq> ''ASX:BHP''"
    and a1: "app1 = select_instrument env1 ''BHP.AX'' (d, c)"
    and a2: "app2 = select_instrument env2 ''RIO.AX'' app1"
  shows "selectedStock (fst app1) = ''ASX:BHP''
       \<and> (\<exists>h. widgetRef (snd app1) = Some h
             \<and> calls (snd app1)
                 = calls (removeWidget env1 c) @ [Construct ''ASX:BHP'' (Some h), MetricsRequest ''BHP.AX'']
             \<and> selectedStock (fst app2) = ''ASX:RIO''
             \<and> (\<exists>out h'. widgetRef (snd app2) = Some h'
                   \<and> calls (snd app2)
                       = calls (snd app1)
                         @ [Teardown h out, Construct ''ASX:RIO'' (Some h'), MetricsRequest ''RIO.AX'']))"
proof -
  let ?h = "length (calls (removeWidget env1 c))"
  have m: "mounted c" using c(1) by (simp add: container_rendered_def)
  have d1: "selectedStock (fst app1) = ''ASX:BHP''"
    by (simp add: a1 select_instrument_def selectStockForChart_def symbols_of_bhp_rio Let_def)
  have c1: "snd app1 = setSelectedStock env1 ''ASX:BHP'' c"
    using c(3) m
    by (simp add: a1 select_instrument_def selectStockForChart_def symbols_of_bhp_rio chart_step_def Let_def)
  have ne: "''ASX:BHP'' \<noteq> chart_selectedStock c" using c(2,3) by simp
  note s1 = setSelectedStock_creates[OF e1 c(1) ne, folded c1]
  have w1: "widgetRef (snd app1) = Some ?h" using s1(2) by simp
  have l1: "calls (snd app1) = calls (removeWidget env1 c) @ [Construct ''ASX:BHP'' (Some ?h), MetricsRequest ''BHP.AX'']"
    using s1(1) by (simp add: symbols_of_bhp_rio)
  have cr: "container_rendered (snd app1)" using s1(4) by simp
  then have m1: "mounted (snd app1)" by (simp add: container_rendered_def)
  have d2: "selectedStock (fst app2) = ''ASX:RIO''"
    by (simp add: a2 select_instrument_def selectStockForChart_def symbols_of_bhp_rio Let_def)
  have c2: "snd app2 = setSelectedStock env2 ''ASX:RIO'' (snd app1)"
    using d1 m1
    by (simp add: a2 select_instrument_def selectStockForChart_def symbols_of_bhp_rio chart_step_def Let_def)
  have ne2: "''ASX:RIO'' \<noteq> chart_selectedStock (snd app1)" using s1(3) by simp
  note s2 = setSelectedStock_creates[OF e2 cr ne2, folded c2]
  from removeWidget_live[OF w1, of env2] obtain out where
    r: "calls (removeWidget env2 (snd app1)) = calls (snd app1) @ [Teardown ?h out]"
    by blast
  have "widgetRef (snd app2) = Some (length (calls (removeWidget env2 (snd app1))))
      \<and> calls (snd app2)
          = calls (snd app1)
            @ [Teardown ?h out, Construct ''ASX:RIO'' (Some (length (calls (removeWidget env2 (snd app1))))),
               MetricsRequest ''RIO.AX'']"
    using s2(1,2) r by (simp add: symbols_of_bhp_rio)
  with d1 w1 l1 d2 show ?thesis by blast
qed

theorem instrument_switch_witness:
  "selectedStock (fst (select_instrument env_ok ''BHP.AX'' csl_app)) = ''ASX:BHP''
   \<and> (\<exists>h out h'.
         calls (snd (select_instrument env_ok ''BHP.AX'' csl_app))
           = calls (removeWidget env_ok (snd csl_app)) @ [Construct ''ASX:BHP'' (Some h), MetricsRequest ''BHP.AX'']
       \<and> calls (snd (select_instrument env_ok ''RIO.AX'' (select_instrument env_ok ''BHP.AX'' csl_app)))
           = calls (snd (select_instrument env_ok ''BHP.AX'' csl_app))
             @ [Teardown h out, Construct ''ASX:RIO'' (Some h'), MetricsRequest ''RIO.AX''])"
proof -
  have e: "library_ready env_ok" "\<not> constructor_throws env_ok"
    by (simp_all add: env_ok_def)
  have c: "container_rendered (snd csl_app)" "chart_selectedStock (snd csl_app) = selectedStock (fst csl_app)"
    "selectedStock (fst csl_app) \<noteq> ''ASX:BHP''"
    by code_simp+
  have p: "csl_app = (fst csl_app, snd csl_app)" by simp
  from instrument_switch[OF e e c, of "select_instrument env_ok ''BHP.AX'' csl_app"
         "select_instrument env_ok ''RIO.AX'' (select_instrument env_ok ''BHP.AX'' csl_app)"]
  show ?thesis by auto
qed

text \<open>
  The claim as stated fails: the widget is created with the very string that is the
  selected state. Selecting \<^verbatim>\<open>BHP.AX\<close> or \<^verbatim>\<open>ASX:BHP\<close> selects \<^verbatim>\<open>ASX:BHP\<close>, not the bare
  ticker; selecting the bare \<^verbatim>\<open>BHP\<close> selects \<^verbatim>\<open>BHP\<close> and creates the widget with \<^verbatim>\<open>BHP\<close>.
\<close>

theorem selected_is_widget_symbol_counterexample:
  "selectedStock (fst (select_instrument env_ok ''BHP.AX'' csl_app)) = ''ASX:BHP''
   \<and> selectedStock (fst (select_instrument env_ok ''ASX:BHP'' csl_app)) = ''ASX:BHP''
   \<and> selectedStock (fst (select_instrument env_ok ''BHP'' csl_app)) = ''BHP''
   \<and> calls (snd (select_instrument env_ok ''BHP'' csl_app))
       = calls (snd csl_app) @ [Teardown 1 Removed, Construct ''BHP'' (Some 3), MetricsRequest ''BHP.AX'']"
  by code_simp

section \<open>Properties of the chat history\<close>

lemma getHistoryKey_inj [simp]: "getHistoryKey a = getHistoryKey b \<longleftrightarrow> a = b"
  by (simp add: getHistoryKey_def)

lemma save_effect_frame:
  "k \<noteq> getHistoryKey (selectedModel s) \<Longrightarrow> localStorage (save_effect s) k = localStorage s k"
  by (simp add: save_effect_def)

lemma save_effect_keeps [simp]:
  "selectedModel (save_effect s) = selectedModel s"
  "messages (save_effect s) = messages s"
  by (simp_all add: save_effect_def)

lemma setMessages_frame:
  "k \<noteq> getHistoryKey (selectedModel s) \<Longrightarrow> localStorage (setMessages msgs s) k = localStorage s k"
  by (simp add: setMessages_def save_effect_def)

lemma setMessages_keeps [simp]:
  "selectedModel (setMessages msgs s) = selectedModel s"
  "messages (setMessages msgs s) = msgs"
  "localStorage (setMessages msgs s) (getHistoryKey (selectedModel s)) = Some msgs"
  by (simp_all add: setMessages_def save_effect_def)

lemma model_effects_frame:
  "k \<noteq> getHistoryKey (selectedModel s) \<Longrightarrow> localStorage (model_effects now s) k = localStorage s k"
  by (simp add: model_effects_def Let_def setMessages_frame save_effect_frame)

lemma model_effects_keeps [simp]: "selectedModel (model_effects now s) = selectedModel s"
  by (simp add: model_effects_def Let_def)

lemma model_effects_loads:
  assumes "localStorage s (getHistoryKey (selectedModel s)) = Some thread"
  shows "messages (model_effects now s) = thread"
    and "localStorage (model_effects now s) (getHistoryKey (selectedModel s)) = Some thread"
  using assms by (simp_all add: model_effects_def Let_def setMessages_def save_effect_def)

lemma chat_step_model:
  "selectedModel (chat_step s e) = (case e of SelectModel m now \<Rightarrow> m | _ \<Rightarrow> selectedModel s)"
  by (cases e) (auto simp: Let_def split: option.splits)

lemma chat_step_frame:
  assumes "k \<noteq> getHistoryKey (selectedModel (chat_step s e))"
  shows "localStorage (chat_step s e) k = localStorage s k"
proof (cases e)
  case (SelectModel m now)
  with assms show ?thesis
    using model_effects_frame[of k "s\<lparr>selectedModel := m\<rparr>" now] by auto
next
  case (TypeInput t)
  then show ?thesis by simp
next
  case (SendMessage now)
  with assms show ?thesis by (auto simp: Let_def setMessages_frame)
next
  case (ResponseOk response now)
  with assms show ?thesis by (auto simp: Let_def setMessages_frame split: option.splits)
next
  case ResponseFailed
  then show ?thesis by (auto split: option.splits)
next
  case (ClearHistory now)
  with assms show ?thesis by (simp add: setMessages_def save_effect_def)
qed

lemma chat_run_frame:
  assumes "selectedModel s \<noteq> B" "list_all (\<lambda>e. \<not> selects B e) es"
  shows "selectedModel (chat_run s es) \<noteq> B
       \<and> localStorage (chat_run s es) (getHistoryKey B) = localStorage s (getHistoryKey B)"
  using assms
proof (induction es arbitrary: s)
  case Nil
  then show ?case by (simp add: chat_run_def)
next
  case (Cons e es)
  from Cons.prems have ne: "\<not> selects B e" and rest: "list_all (\<lambda>e. \<not> selects B e) es" by simp_all
  have m: "selectedModel (chat_step s e) \<noteq> B"
    using Cons.prems(1) ne unfolding chat_step_model by (cases e) (auto simp: selects_def)
  then have "getHistoryKey B \<noteq> getHistoryKey (selectedModel (chat_step s e))" by simp
  from chat_step_frame[OF this]
  have f: "localStorage (chat_step s e) (getHistoryKey B) = localStorage s (getHistoryKey B)" .
  have "chat_run s (e # es) = chat_run (chat_step s e) es" by (simp add: chat_run_def)
  with Cons.IH[OF m rest] f show ?case by simp
qed

lemma select_reloads:
  assumes "selectedModel s \<noteq> B" "localStorage s (getHistoryKey B) = Some thread"
  shows "messages (chat_step s (SelectModel B now)) = thread
       \<and> localStorage (chat_step s (SelectModel B now)) (getHistoryKey B) = Some thread
       \<and> selectedModel (chat_step s (SelectModel B now)) = B"
  using assms model_effects_loads[of "s\<lparr>selectedModel := B\<rparr>" thread now] by auto

text \<open>
  Frame of the storage. Whatever the component does (selecting a model, typing, sending,
  receiving an answer or a failure, clearing), the only storage entry that can change is
  the one under the key of the model selected when the step is done; the entry of every
  other model \<open>B\<close> stays as it is. Hence, if \<open>B\<close> has a stored thread and is not
  selected, then after any run of events that never selects \<open>B\<close> the thread is still
  stored under \<open>B\<close>, and selecting \<open>B\<close> shows exactly that thread and stores it back
  unchanged. This says nothing of a run that selects \<open>B\<close> while an answer is pending.
\<close>

theorem chat_threads_isolated:
  "(\<forall>k. k \<noteq> getHistoryKey (selectedModel (chat_step s e))
        \<longrightarrow> localStorage (chat_step s e) k = localStorage s k)
   \<and> (B \<noteq> selectedModel (chat_step s e)
        \<longrightarrow> localStorage (chat_step s e) (getHistoryKey B) = localStorage s (getHistoryKey B))
   \<and> (selectedModel s \<noteq> B \<and> list_all (\<lambda>e. \<not> selects B e) es
        \<and> localStorage s (getHistoryKey B) = Some thread
        \<longrightarrow> localStorage (chat_run s es) (getHistoryKey B) = Some thread
          \<and> messages (chat_step (chat_run s es) (SelectModel B now)) = thread
          \<and> localStorage (chat_step (chat_run s es) (SelectModel B now)) (getHistoryKey B) = Some thread)"
proof (intro conjI allI impI)
  fix k assume "k \<noteq> getHistoryKey (selectedModel (chat_step s e))"
  then show "localStorage (chat_step s e) k = localStorage s k" by (rule chat_step_frame)
next
  assume "B \<noteq> selectedModel (chat_step s e)"
  then have "getHistoryKey B \<noteq> getHistoryKey (selectedModel (chat_step s e))" by simp
  then show "localStorage (chat_step s e) (getHistoryKey B) = localStorage s (getHistoryKey B)"
    by (rule chat_step_frame)
next
  assume h: "selectedModel s \<noteq> B \<and> list_all (\<lambda>e. \<not> selects B e) es
        \<and> localStorage s (getHistoryKey B) = Some thread"
  with chat_run_frame[of s B es]
  have r: "selectedModel (chat_run s es) \<noteq> B"
          "localStorage (chat_run s es) (getHistoryKey B) = Some thread"
    by simp_all
  show "localStorage (chat_run s es) (getHistoryKey B) = Some thread" by (rule r(2))
  from select_reloads[OF r, of now]
  show "messages (chat_step (chat_run s es) (SelectModel B now)) = thread"
    and "localStorage (chat_step (chat_run s es) (SelectModel B now)) (getHistoryKey B) = Some thread"
    by simp_all
qed

theorem chat_threads_isolated_witness:
  "selectedModel (chat_mount sample_storage 250) \<noteq> ''qwen-2.5-32b''
   \<and> list_all (\<lambda>e. \<not> selects ''qwen-2.5-32b'' e) sample_chat
   \<and> localStorage (chat_mount sample_storage 250) (getHistoryKey ''qwen-2.5-32b'') = Some qwen_thread
   \<and> localStorage (chat_run (chat_mount sample_storage 250) sample_chat) (getHistoryKey ''qwen-2.5-32b'')
       = Some qwen_thread
   \<and> messages (chat_step (chat_run (chat_mount sample_storage 250) sample_chat)
        (SelectModel ''qwen-2.5-32b'' 400)) = qwen_thread
   \<and> localStorage (chat_step (chat_mount sample_storage 250) (ClearHistory 260)) ''sidebarCollapsed''
       = localStorage (chat_mount sample_storage 250) ''sidebarCollapsed''
   \<and> localStorage (chat_step (chat_mount sample_storage 250) (ClearHistory 260))
         (getHistoryKey ''qwen-2.5-32b'')
       = Some qwen_thread"
proof -
  let ?s = "chat_mount sample_storage 250"
  have m: "selectedModel (chat_step ?s (ClearHistory 260)) = ''llama3-70b-8192''"
    by (simp add: chat_mount_def)
  have k1: "''sidebarCollapsed'' \<noteq> getHistoryKey (selectedModel (chat_step ?s (ClearHistory 260)))"
    unfolding m by (simp add: getHistoryKey_def)
  have k2: "''qwen-2.5-32b'' \<noteq> selectedModel (chat_step ?s (ClearHistory 260))"
    unfolding m by simp
  note U = chat_threads_isolated[of ?s "ClearHistory 260" "''qwen-2.5-32b''"]
  from U[THEN conjunct1, rule_format, OF k1]
  have w1: "localStorage (chat_step ?s (ClearHistory 260)) ''sidebarCollapsed''
              = localStorage ?s ''sidebarCollapsed''" .
  from U[THEN conjunct2, THEN conjunct1, rule_format, OF k2]
  have w2: "localStorage (chat_step ?s (ClearHistory 260)) (getHistoryKey ''qwen-2.5-32b'')
              = localStorage ?s (getHistoryKey ''qwen-2.5-32b'')" .
  have h: "selectedModel (chat_mount sample_storage 250) \<noteq> ''qwen-2.5-32b''
         \<and> list_all (\<lambda>e. \<not> selects ''qwen-2.5-32b'' e) sample_chat
         \<and> localStorage (chat_mount sample_storage 250) (getHistoryKey ''qwen-2.5-32b'') = Some qwen_thread"
    by (simp add: chat_mount_def sample_chat_def selects_def sample_storage_def model_effects_frame)
  from chat_threads_isolated[THEN conjunct2, THEN conjunct2, rule_format, OF h] h w1 w2
  show ?thesis by simp
qed

text \<open>
  An answer is appended to the thread on display when it arrives: after a message was
  sent under one model and another model was selected, the answer goes to the thread
  of the model selected by then.
\<close>

lemma late_answer_joins_selected_thread:
  assumes "awaiting s = Some m"
  shows "\<exists>reply. messages (chat_step s (ResponseOk r now)) = messages s @ [reply]
               \<and> localStorage (chat_step s (ResponseOk r now)) (getHistoryKey (selectedModel s))
                   = Some (messages s @ [reply])"
  using assms by (simp add: Let_def)

text \<open>
  Claim C9. The threads are not isolated. A message is sent under \<^verbatim>\<open>llama3-70b-8192\<close>, so
  the request names that model and the message is stored under its key; the user then
  selects \<^verbatim>\<open>qwen-2.5-32b\<close>, whose stored thread is loaded unaltered; then the answer to
  the request arrives. The answer is appended to the thread on display and saved under
  the key of \<^verbatim>\<open>qwen-2.5-32b\<close>: the thread persisted for that model has changed by a
  message of a conversation held under the other model, and the thread of
  \<^verbatim>\<open>llama3-70b-8192\<close> never receives its answer.
\<close>

theorem answer_after_switch_alters_other_thread:
  "localStorage (chat_mount sample_storage 250) (getHistoryKey ''qwen-2.5-32b'') = Some qwen_thread
   \<and> awaiting (chat_run (chat_mount sample_storage 250) (take 2 late_answer_run)) = Some ''llama3-70b-8192''
   \<and> selectedModel (chat_run (chat_mount sample_storage 250) (take 2 late_answer_run)) = ''llama3-70b-8192''
   \<and> localStorage (chat_run (chat_mount sample_storage 250) (take 3 late_answer_run))
        (getHistoryKey ''qwen-2.5-32b'') = Some qwen_thread
   \<and> localStorage (chat_run (chat_mount sample_storage 250) late_answer_run) (getHistoryKey ''qwen-2.5-32b'')
       = Some (qwen_thread
               @ [\<lparr>msg_id = 303, msg_text = ''It is up 2%.'', msg_sender = AI, msg_timestamp = 302\<rparr>])
   \<and> localStorage (chat_run (chat_mount sample_storage 250) late_answer_run) (getHistoryKey ''llama3-70b-8192'')
       = Some [greeting 250,
               \<lparr>msg_id = 300, msg_text = ''How is BHP doing?'', msg_sender = User, msg_timestamp = 300\<rparr>]"
  by code_simp

end
